theory Spec2Isabelle
  imports Main "HOL-Library.Sublist"
begin

section \<open>Python values used by \<open>ietfdata/mailarchive.py\<close>\<close>

text \<open>
  A Python \<open>str\<close> is modelled as an Isabelle \<open>string\<close> (a list of 8-bit characters, so
  code points 0 to 255), a \<open>bytes\<close> object as a list of 8-bit characters as well.
  Every exception the modelled code can raise is a value of \<open>py_error\<close>; a call that may
  raise returns \<open>py_error + 'a\<close>, with \<open>Inl\<close> for the exception. \<open>NoFile\<close> and
  \<open>BulkWriteError\<close> are the errors of the blob store and of the document store,
  \<open>LibraryError\<close> stands for whatever a library call raises, and \<open>MalformedURLError\<close> is
  the error that the specification names for the codec: no line of the code raises it.
\<close>

type_synonym bytes = "char list"

datatype py_error =
    AttributeError
  | KeyError
  | TypeError
  | UnboundLocalError
  | AssertionError
  | RuntimeError
  | NoFile
  | BulkWriteError
  | MalformedURLError
  | LibraryError nat

subsection \<open>String primitives\<close>

text \<open>\<open>s.find(sub)\<close>: the lowest index at which \<open>sub\<close> starts in \<open>s\<close>, or \<open>-1\<close>.\<close>

primrec find_from :: "string \<Rightarrow> string \<Rightarrow> nat \<Rightarrow> int" where
  "find_from sub [] i = (if sub = [] then int i else - 1)"
| "find_from sub (c # cs) i =
     (if prefix sub (c # cs) then int i else find_from sub cs (Suc i))"

definition py_find :: "string \<Rightarrow> string \<Rightarrow> int" where
  "py_find s sub = find_from sub s 0"

text \<open>\<open>sub in s\<close> for two strings.\<close>

definition py_in :: "string \<Rightarrow> string \<Rightarrow> bool" where
  "py_in sub s = (py_find s sub \<noteq> - 1)"

text \<open>
  The slices \<open>s[i:]\<close> and \<open>s[:j]\<close>: a negative index counts from the end, and an index
  out of range is clipped, never an error.
\<close>

definition slice_from :: "string \<Rightarrow> int \<Rightarrow> string" where
  "slice_from s i =
     (if i < 0 then drop (nat (int (length s) + i)) s else drop (nat i) s)"

definition slice_to :: "string \<Rightarrow> int \<Rightarrow> string" where
  "slice_to s j =
     (if j < 0 then take (nat (int (length s) + j)) s else take (nat j) s)"

text \<open>
  \<open>s.strip()\<close> removes leading and trailing whitespace: for code points below 256 these
  are 9 to 13, 28 to 32, 133 and 160.
\<close>

definition is_space :: "char \<Rightarrow> bool" where
  "is_space c =
     (let n = of_char c :: nat
      in (9 \<le> n \<and> n \<le> 13) \<or> (28 \<le> n \<and> n \<le> 32) \<or> n = 133 \<or> n = 160)"

definition strip :: "string \<Rightarrow> string" where
  "strip s = rev (dropWhile is_space (rev (dropWhile is_space s)))"

section \<open>The archive-URL codec\<close>

text \<open>
  \<open>_parse_archive_url\<close> (lines 58 to 65). The function has no \<open>raise\<close>, no assertion and
  no indexing of a single element: it only calls \<open>find\<close>, slices and \<open>strip\<close>, none of
  which raises on a \<open>str\<close>. It reads its argument and nothing else.
\<close>

definition parse_archive_url :: "string \<Rightarrow> py_error + (string \<times> string)" where
  "parse_archive_url archive_url =
     (let aa_start = py_find archive_url ''://mailarchive.ietf.org/arch/msg'';
          aa_uri = strip (slice_from archive_url (aa_start + 33));
          mailing_list = slice_to aa_uri (py_find aa_uri ''/'');
          message_hash = slice_from aa_uri (py_find aa_uri ''/'' + 1)
      in Inr (mailing_list, message_hash))"

section \<open>The cache: document collections and blob store\<close>

text \<open>
  A document of the collection \<open>db.messages\<close>, with the fields written on lines 224 to
  230. The timestamp is a naive \<open>datetime\<close>, modelled as a number of seconds, or \<open>None\<close>.
  The \<open>headers\<close> dict is a map from header name to value.
\<close>

record message_doc =
  doc_list :: string
  doc_imap_uid :: nat
  doc_gridfs_id :: nat
  doc_size :: nat
  doc_timestamp :: "int option"
  doc_headers :: "string \<rightharpoonup> string"
  doc_body :: string

text \<open>
  The persistent state shared by all handles: the collection \<open>db.messages\<close> in its natural
  (insertion) order, the collection \<open>db.aa_cache\<close> (one document per list name: it has a
  unique index on \<open>list\<close>), and the GridFS blob store. GridFS names every stored file by a
  new identifier that it never gave out before; the model draws them from a counter.
\<close>

record store =
  db_messages :: "message_doc list"
  db_aa_cache :: "string \<rightharpoonup> (string \<rightharpoonup> nat)"
  fs_files :: "nat \<rightharpoonup> bytes"
  fs_next_id :: nat

definition empty_store :: store where
  "empty_store =
     \<lparr>db_messages = [], db_aa_cache = Map.empty, fs_files = Map.empty, fs_next_id = 0\<rparr>"

definition fs_put :: "bytes \<Rightarrow> store \<Rightarrow> nat \<times> store" where
  "fs_put data w =
     (fs_next_id w,
      w\<lparr>fs_files := (fs_files w)(fs_next_id w \<mapsto> data),
        fs_next_id := Suc (fs_next_id w)\<rparr>)"

definition fs_get :: "store \<Rightarrow> nat \<Rightarrow> py_error + bytes" where
  "fs_get w i = (case fs_files w i of None \<Rightarrow> Inl NoFile | Some data \<Rightarrow> Inr data)"

text \<open>The key of the unique index created on line 291: \<open>(list, imap_uid)\<close>.\<close>

definition doc_key :: "message_doc \<Rightarrow> string \<times> nat" where
  "doc_key d = (doc_list d, doc_imap_uid d)"

definition unique_keys :: "message_doc list \<Rightarrow> bool" where
  "unique_keys coll = distinct (map doc_key coll)"

text \<open>\<open>db.messages.find({"list": name})\<close>.\<close>

definition find_list :: "string \<Rightarrow> message_doc list \<Rightarrow> message_doc list" where
  "find_list name coll = filter (\<lambda>d. doc_list d = name) coll"

text \<open>\<open>db.messages.find_one({"list": name, "imap_uid": msg_id})\<close>.\<close>

definition find_one :: "string \<Rightarrow> nat \<Rightarrow> message_doc list \<Rightarrow> message_doc option" where
  "find_one name msg_id coll =
     List.find (\<lambda>d. doc_list d = name \<and> doc_imap_uid d = msg_id) coll"

text \<open>\<open>db.messages.delete_one({"list": name, "imap_uid": msg_id})\<close> removes the first match.\<close>

fun delete_one :: "string \<Rightarrow> nat \<Rightarrow> message_doc list \<Rightarrow> message_doc list" where
  "delete_one name msg_id [] = []"
| "delete_one name msg_id (d # ds) =
     (if doc_list d = name \<and> doc_imap_uid d = msg_id then ds
      else d # delete_one name msg_id ds)"

text \<open>
  \<open>db.messages.bulk_write(ops)\<close> for the operations staged on lines 223 to 231, each
  \<open>ReplaceOne({"list": name, "id": msg_id}, doc, upsert=True)\<close>. The filter names the
  field \<open>id\<close>; the documents of the collection have the fields of \<open>message_doc\<close> (and
  the store's own \<open>_id\<close>), none called \<open>id\<close>, so the filter selects no document and the
  upsert inserts \<open>doc\<close>. The unique index refuses a document whose \<open>(list, imap_uid)\<close> is
  already present; an ordered bulk write stops there and raises, keeping what it wrote.
\<close>

fun bulk_write :: "message_doc list \<Rightarrow> message_doc list \<Rightarrow> message_doc list \<times> py_error option" where
  "bulk_write [] coll = (coll, None)"
| "bulk_write (d # ops) coll =
     (if doc_key d \<in> set (map doc_key coll) then (coll, Some BulkWriteError)
      else bulk_write ops (coll @ [d]))"

section \<open>The libraries the code calls\<close>

text \<open>
  The \<open>email\<close> package, \<open>BeautifulSoup\<close>, \<open>EmailReplyParser\<close> and \<open>datetime\<close> are not part
  of the repository. They are a parameter of the model: a record of functions, each
  free to raise where the Python call can. \<open>'e\<close> is the type of parsed messages and
  message parts; a time tuple is a list of integers.
\<close>

record 'e email_lib =
  message_from_bytes :: "bytes \<Rightarrow> 'e"
  get_item :: "'e \<Rightarrow> string \<Rightarrow> py_error + string option"
  parsedate :: "string option \<Rightarrow> py_error + int list option"
  fromtimestamp_mktime :: "int list \<Rightarrow> py_error + int"
  items :: "'e \<Rightarrow> py_error + (string \<times> string) list"
  get_body :: "'e \<Rightarrow> py_error + 'e option"
  get_payload :: "'e \<Rightarrow> py_error + bytes option"
  get_content_charset :: "'e \<Rightarrow> py_error + string option"
  decode :: "bytes \<Rightarrow> string \<Rightarrow> py_error + string"
  soup_text :: "string \<Rightarrow> py_error + string"
  parse_reply :: "string \<Rightarrow> py_error + string"
  strptime :: "string \<Rightarrow> py_error + int"

text \<open>Sequencing of calls that may raise: the first exception ends the block.\<close>

definition bind_err :: "py_error + 'a \<Rightarrow> ('a \<Rightarrow> py_error + 'b) \<Rightarrow> py_error + 'b" where
  "bind_err r f = (case r of Inl err \<Rightarrow> Inl err | Inr x \<Rightarrow> f x)"

text \<open>\<open>try: ... except: default\<close> with a bare \<open>except\<close>: every exception gives the default.\<close>

definition try_except :: "py_error + 'a \<Rightarrow> 'a \<Rightarrow> 'a" where
  "try_except r dflt = (case r of Inl err \<Rightarrow> dflt | Inr x \<Rightarrow> x)"

section \<open>Message normalisation\<close>

text \<open>
  The body of the \<open>try\<close> block of \<open>_clean_email_text\<close> (lines 70 to 77). A method called on
  \<open>None\<close> raises \<open>AttributeError\<close>: \<open>get_body()\<close> returns \<open>None\<close> for a message without a
  body part, \<open>get_payload(decode=True)\<close> returns \<open>None\<close> for a multipart.
\<close>

definition clean_email_text_body :: "'e email_lib \<Rightarrow> 'e \<Rightarrow> py_error + string" where
  "clean_email_text_body lib email =
     bind_err (get_body lib email) (\<lambda>raw_body_opt.
       case raw_body_opt of
         None \<Rightarrow> Inl AttributeError
       | Some raw_body \<Rightarrow>
           bind_err (get_payload lib raw_body) (\<lambda>clean_text_bytes.
           bind_err (get_content_charset lib raw_body) (\<lambda>charset.
           bind_err (case clean_text_bytes of
                       None \<Rightarrow> Inl AttributeError
                     | Some b \<Rightarrow>
                         (case charset of
                            Some cs \<Rightarrow> decode lib b cs
                          | None \<Rightarrow> decode lib b ''utf-8'')) (\<lambda>clean_text.
           bind_err (soup_text lib clean_text) (\<lambda>clean_text'.
             parse_reply lib clean_text')))))"

text \<open>\<open>_clean_email_text\<close> (lines 68 to 80).\<close>

definition clean_email_text :: "'e email_lib \<Rightarrow> 'e \<Rightarrow> py_error + string" where
  "clean_email_text lib email = Inr (try_except (clean_email_text_body lib email) [])"

text \<open>The body of the \<open>try\<close> block that computes the timestamp (lines 212 to 216).\<close>

definition timestamp_body :: "'e email_lib \<Rightarrow> 'e \<Rightarrow> py_error + int option" where
  "timestamp_body lib e =
     bind_err (get_item lib e ''Date'') (\<lambda>date_hdr.
     bind_err (parsedate lib date_hdr) (\<lambda>msg_date.
       case msg_date of
         Some tt \<Rightarrow> bind_err (fromtimestamp_mktime lib tt) (\<lambda>t. Inr (Some t))
       | None \<Rightarrow> Inr None))"

text \<open>
  The dict comprehension of line 220: a later header of the same name replaces an
  earlier one.
\<close>

definition headers_body :: "'e email_lib \<Rightarrow> 'e \<Rightarrow> py_error + (string \<rightharpoonup> string)" where
  "headers_body lib e = bind_err (items lib e) (\<lambda>kvs. Inr (map_of (rev kvs)))"

text \<open>
  The record construction of lines 211 to 231: the document that is staged for the
  message \<open>msg_id\<close> of the list, whose raw bytes \<open>raw\<close> were stored as \<open>cache_file_id\<close> and
  parsed as \<open>e\<close>.
\<close>

definition normalize_message ::
  "'e email_lib \<Rightarrow> string \<Rightarrow> nat \<Rightarrow> nat \<Rightarrow> bytes \<Rightarrow> 'e \<Rightarrow> py_error + message_doc" where
  "normalize_message lib name msg_id cache_file_id raw e =
     (let timestamp = try_except (timestamp_body lib e) None;
          headers = try_except (headers_body lib e) Map.empty
      in bind_err (clean_email_text lib e) (\<lambda>body.
           Inr \<lparr>doc_list = name, doc_imap_uid = msg_id, doc_gridfs_id = cache_file_id,
                doc_size = length raw, doc_timestamp = timestamp, doc_headers = headers,
                doc_body = body\<rparr>))"

section \<open>The mailing-list handle and its synchronisation\<close>

text \<open>
  The fields of a \<open>MailingList\<close> object that \<open>__init__\<close> sets and the methods use. The
  logger, the unused \<open>_threads\<close> list and \<open>_last_updated\<close> (a reading of the clock) are
  left out; \<open>_db\<close> and \<open>_fs\<close> are the shared \<open>store\<close>, passed beside the handle.
\<close>

record mailing_list =
  ml_list_name :: string
  ml_num_messages :: nat
  ml_archive_urls :: "string \<rightharpoonup> nat"

text \<open>
  The remote mailbox as one run sees it: for each message its UID, the size the server
  reports for \<open>RFC822.SIZE\<close> and the bytes it sends for \<open>RFC822\<close>, in the order of the
  server's answers.
\<close>

record remote_msg =
  uid :: nat
  rfc822_size :: nat
  rfc822 :: bytes

text \<open>
  The dict comprehension of line 188: cached documents of the list by UID, a later
  document replacing an earlier one of the same UID.
\<close>

definition cached_messages :: "string \<Rightarrow> message_doc list \<Rightarrow> (nat \<rightharpoonup> message_doc)" where
  "cached_messages name coll =
     map_of (rev (map (\<lambda>d. (doc_imap_uid d, d)) (find_list name coll)))"

text \<open>
  \<open>cache_file.delete()\<close> on line 199. \<open>cache_file\<close> is the \<open>GridOut\<close> object that
  \<open>self._fs.get(...)\<close> returned. \<open>GridOut\<close> has no method \<open>delete\<close> (files are deleted
  through \<open>GridFS.delete(file_id)\<close>), and its attribute lookup raises \<open>AttributeError\<close>
  for every name that is not a field of the file document.
\<close>

definition grid_out_delete :: "bytes \<Rightarrow> py_error + unit" where
  "grid_out_delete cache_file = Inl AttributeError"

text \<open>
  The loop of lines 192 to 201 over the sizes the server reports. A size mismatch reads
  the cached blob (\<open>NoFile\<close> when it is gone), calls \<open>delete\<close> on it, deletes the row, and
  marks the UID to fetch. The warning that is logged is not part of the state.
\<close>

fun size_scan ::
  "string \<Rightarrow> (nat \<rightharpoonup> message_doc) \<Rightarrow> remote_msg list \<Rightarrow> store \<Rightarrow> nat list
     \<Rightarrow> store \<times> (py_error + nat list)" where
  "size_scan name cached [] w msg_fetch = (w, Inr msg_fetch)"
| "size_scan name cached (m # ms) w msg_fetch =
     (case cached (uid m) of
        None \<Rightarrow> size_scan name cached ms w (msg_fetch @ [uid m])
      | Some c \<Rightarrow>
          if doc_size c \<noteq> rfc822_size m then
            (case fs_get w (doc_gridfs_id c) of
               Inl err \<Rightarrow> (w, Inl err)
             | Inr cache_file \<Rightarrow>
                 (case grid_out_delete cache_file of
                    Inl err \<Rightarrow> (w, Inl err)
                  | Inr u \<Rightarrow>
                      size_scan name cached ms
                        (w\<lparr>db_messages := delete_one name (uid m) (db_messages w)\<rparr>)
                        (msg_fetch @ [uid m])))
          else size_scan name cached ms w msg_fetch)"

text \<open>\<open>imap.fetch(msg_fetch, "RFC822").items()\<close>: the bytes of the requested messages.\<close>

definition imap_fetch :: "remote_msg list \<Rightarrow> nat list \<Rightarrow> (nat \<times> bytes) list" where
  "imap_fetch remote msg_fetch =
     map (\<lambda>m. (uid m, rfc822 m)) (filter (\<lambda>m. uid m \<in> set msg_fetch) remote)"

text \<open>The state that the loop of lines 204 to 243 changes.\<close>

record fetch_state =
  the_store :: store
  the_list :: mailing_list
  cache_replaces :: "message_doc list"
  new_msgs :: "nat list"

text \<open>
  One iteration of the loop of lines 204 to 243, for the message \<open>msg_id\<close> with bytes
  \<open>raw\<close>. The keepalive of lines 237 to 241 depends on the clock and changes nothing that
  is modelled. The result carries the exception, if any, beside the state reached.
\<close>

definition fetch_one ::
  "'e email_lib \<Rightarrow> nat \<times> bytes \<Rightarrow> fetch_state \<Rightarrow> fetch_state \<times> py_error option" where
  "fetch_one lib p s =
     (let msg_id = fst p; raw = snd p;
          name = ml_list_name (the_list s);
          cache_file_id = fst (fs_put raw (the_store s));
          w1 = snd (fs_put raw (the_store s));
          s1 = s\<lparr>the_store := w1\<rparr>;
          e = message_from_bytes lib raw
      in case get_item lib e ''Archived-At'' of
           Inl err \<Rightarrow> (s1, Some err)
         | Inr archived_at \<Rightarrow>
             (case (case archived_at of
                      None \<Rightarrow> Inr (the_list s)
                    | Some url \<Rightarrow>
                        bind_err (parse_archive_url url) (\<lambda>lh.
                          Inr ((the_list s)
                                 \<lparr>ml_archive_urls := (ml_archive_urls (the_list s))(snd lh \<mapsto> msg_id)\<rparr>))) of
                Inl err \<Rightarrow> (s1, Some err)
              | Inr ml1 \<Rightarrow>
                  (let ml2 = ml1\<lparr>ml_num_messages := ml_num_messages ml1 + 1\<rparr>;
                       s2 = s1\<lparr>the_list := ml2\<rparr>
                   in case normalize_message lib name msg_id cache_file_id raw e of
                        Inl err \<Rightarrow> (s2, Some err)
                      | Inr doc \<Rightarrow>
                          (let staged = cache_replaces s @ [doc]
                           in if length staged > 1000 then
                                (case bulk_write staged (db_messages w1) of
                                   (coll, Some err) \<Rightarrow>
                                     (s2\<lparr>the_store := w1\<lparr>db_messages := coll\<rparr>,
                                         cache_replaces := staged\<rparr>, Some err)
                                 | (coll, None) \<Rightarrow>
                                     (s2\<lparr>the_store := w1\<lparr>db_messages := coll\<rparr>,
                                         cache_replaces := [],
                                         new_msgs := new_msgs s @ [msg_id]\<rparr>, None))
                              else
                                (s2\<lparr>cache_replaces := staged,
                                    new_msgs := new_msgs s @ [msg_id]\<rparr>, None)))))"

fun fetch_loop ::
  "'e email_lib \<Rightarrow> (nat \<times> bytes) list \<Rightarrow> fetch_state \<Rightarrow> fetch_state \<times> py_error option" where
  "fetch_loop lib [] s = (s, None)"
| "fetch_loop lib (p # ps) s =
     (case fetch_one lib p s of
        (s', Some err) \<Rightarrow> (s', Some err)
      | (s', None) \<Rightarrow> fetch_loop lib ps s')"

text \<open>
  \<open>db.aa_cache.replace_one({"list": name}, {"list": name, "archive_urls": urls},
  upsert=True)\<close> (lines 126 and 245).
\<close>

definition aa_cache_replace :: "string \<Rightarrow> (string \<rightharpoonup> nat) \<Rightarrow> store \<Rightarrow> store" where
  "aa_cache_replace name urls w = w\<lparr>db_aa_cache := (db_aa_cache w)(name \<mapsto> urls)\<rparr>"

text \<open>
  \<open>MailingList.update\<close> (lines 175 to 254) against the remote mailbox \<open>remote\<close>. The result
  is the store and the handle as the call leaves them, and the list of new UIDs or the
  exception raised. Opening and closing the IMAP session is not modelled.
\<close>

definition update ::
  "'e email_lib \<Rightarrow> remote_msg list \<Rightarrow> store \<Rightarrow> mailing_list
     \<Rightarrow> (store \<times> mailing_list) \<times> (py_error + nat list)" where
  "update lib remote w ml =
     (let name = ml_list_name ml;
          cached = cached_messages name (db_messages w)
      in case size_scan name cached remote w [] of
           (w1, Inl err) \<Rightarrow> ((w1, ml), Inl err)
         | (w1, Inr msg_fetch) \<Rightarrow>
             (case (if length msg_fetch > 0 then
                      (case fetch_loop lib (imap_fetch remote msg_fetch)
                              \<lparr>the_store = w1, the_list = ml, cache_replaces = [], new_msgs = []\<rparr> of
                         (s, Some err) \<Rightarrow> (s, Some err)
                       | (s, None) \<Rightarrow>
                           (s\<lparr>the_store :=
                                 aa_cache_replace name (ml_archive_urls (the_list s)) (the_store s)\<rparr>,
                            None))
                    else
                      (\<lparr>the_store = w1, the_list = ml, cache_replaces = [], new_msgs = []\<rparr>, None)) of
                (s, Some err) \<Rightarrow> ((the_store s, the_list s), Inl err)
              | (s, None) \<Rightarrow>
                  (if length (cache_replaces s) > 0 then
                     (case bulk_write (cache_replaces s) (db_messages (the_store s)) of
                        (coll, Some err) \<Rightarrow>
                          (((the_store s)\<lparr>db_messages := coll\<rparr>, the_list s), Inl err)
                      | (coll, None) \<Rightarrow>
                          (((the_store s)\<lparr>db_messages := coll\<rparr>, the_list s), Inr (new_msgs s)))
                   else ((the_store s, the_list s), Inr (new_msgs s)))))"

text \<open>\<open>MailingList.num_messages\<close> (lines 133 and 134).\<close>

definition num_messages :: "mailing_list \<Rightarrow> nat" where
  "num_messages ml = ml_num_messages ml"

section \<open>The read-only view of one list\<close>

text \<open>The frozen dataclass \<open>MailingListMessage\<close> (lines 84 to 93): eight fields.\<close>

record mailing_list_message =
  mlm_list_name :: string
  mlm_message_id :: "string option"
  mlm_from_addr :: "string option"
  mlm_subject :: "string option"
  mlm_date :: "int option"
  mlm_in_reply_to :: "string option"
  mlm_references :: "string option"
  mlm_body :: string

text \<open>
  \<open>MailingList.raw_message\<close> (lines 137 to 141). When no document is found the \<open>if\<close> is
  skipped and \<open>return message\<close> reads a local variable that was never bound.
\<close>

definition raw_message :: "'e email_lib \<Rightarrow> store \<Rightarrow> mailing_list \<Rightarrow> nat \<Rightarrow> py_error + 'e" where
  "raw_message lib w ml msg_id =
     (case find_one (ml_list_name ml) msg_id (db_messages w) of
        None \<Rightarrow> Inl UnboundLocalError
      | Some cache_metadata \<Rightarrow>
          bind_err (fs_get w (doc_gridfs_id cache_metadata)) (\<lambda>data.
            Inr (message_from_bytes lib data)))"

text \<open>
  The attribute \<open>_msg_metadata\<close> is annotated in the class body (line 102) and assigned
  nowhere, neither in \<open>__init__\<close> nor in any method: reading it raises \<open>AttributeError\<close>.
\<close>

definition get_msg_metadata :: "mailing_list \<Rightarrow> py_error + (nat \<rightharpoonup> unit)" where
  "get_msg_metadata ml = Inl AttributeError"

text \<open>
  \<open>MailingList.message\<close> (lines 156 and 157). The arguments are evaluated from left to
  right, then the dataclass of eight required fields is called with two arguments,
  which is a \<open>TypeError\<close>.
\<close>

definition message ::
  "'e email_lib \<Rightarrow> store \<Rightarrow> mailing_list \<Rightarrow> nat \<Rightarrow> py_error + mailing_list_message" where
  "message lib w ml msg_id =
     bind_err (raw_message lib w ml msg_id) (\<lambda>raw.
     bind_err (get_msg_metadata ml) (\<lambda>metadata.
       case metadata msg_id of
         None \<Rightarrow> Inl KeyError
       | Some md \<Rightarrow> Inl TypeError))"

text \<open>\<open>d.get(key, default)\<close> where the default is itself an optional value.\<close>

definition dict_get :: "(string \<rightharpoonup> string) \<Rightarrow> string \<Rightarrow> string option \<Rightarrow> string option" where
  "dict_get h k dflt = (case h k of None \<Rightarrow> dflt | Some v \<Rightarrow> Some v)"

text \<open>
  The store's comparison \<open>{"timestamp": {"$gt": since, "$lt": until}}\<close>: a document whose
  timestamp is \<open>None\<close> is stored as null, which compares with no date.
\<close>

definition timestamp_between :: "int \<Rightarrow> int \<Rightarrow> message_doc \<Rightarrow> bool" where
  "timestamp_between since until d =
     (case doc_timestamp d of None \<Rightarrow> False | Some t \<Rightarrow> since < t \<and> t < until)"

text \<open>
  A generator that builds one message per document: what it yields before it ends or
  raises, and the exception if it raised.
\<close>

fun yield_all ::
  "(message_doc \<Rightarrow> py_error + mailing_list_message) \<Rightarrow> message_doc list
     \<Rightarrow> mailing_list_message list \<times> py_error option" where
  "yield_all f [] = ([], None)"
| "yield_all f (d # ds) =
     (case f d of
        Inl err \<Rightarrow> ([], Some err)
      | Inr m \<Rightarrow> (case yield_all f ds of (ms, r) \<Rightarrow> (m # ms, r)))"

text \<open>
  The constructor call of lines 165 to 172 in \<open>MailingList.messages\<close>. The third argument
  indexes \<open>headers\<close> with \<open>"From"\<close> (\<open>KeyError\<close> when absent); the fourth evaluates
  \<open>"headers".get\<close>, a method that \<open>str\<close> does not have, before \<open>get\<close> is called.
\<close>

definition list_message_of :: "string \<Rightarrow> message_doc \<Rightarrow> py_error + mailing_list_message" where
  "list_message_of name d =
     (case doc_headers d ''From'' of
        None \<Rightarrow> Inl KeyError
      | Some from_addr \<Rightarrow> Inl AttributeError)"

text \<open>\<open>MailingList.messages\<close> (lines 160 to 172).\<close>

definition list_messages ::
  "'e email_lib \<Rightarrow> store \<Rightarrow> mailing_list \<Rightarrow> string \<Rightarrow> string
     \<Rightarrow> mailing_list_message list \<times> py_error option" where
  "list_messages lib w ml since until =
     (case strptime lib since of
        Inl err \<Rightarrow> ([], Some err)
      | Inr s \<Rightarrow>
          (case strptime lib until of
             Inl err \<Rightarrow> ([], Some err)
           | Inr u \<Rightarrow>
               yield_all (list_message_of (ml_list_name ml))
                 (filter (\<lambda>d. doc_list d = ml_list_name ml \<and> timestamp_between s u d)
                    (db_messages w))))"

definition default_since :: string where
  "default_since = ''1970-01-01T00:00:00''"

definition default_until :: string where
  "default_until = ''2038-01-19T03:14:07''"

text \<open>
  \<open>MailingList.__init__\<close> (lines 105 to 126). Without a persisted index the constructor
  iterates \<open>self.messages()\<close>; the loop header unpacks each yielded message into two
  names, which a \<open>MailingListMessage\<close> does not support.
\<close>

definition mailing_list_init ::
  "'e email_lib \<Rightarrow> store \<Rightarrow> string \<Rightarrow> store \<times> (py_error + mailing_list)" where
  "mailing_list_init lib w name =
     (let ml0 = \<lparr>ml_list_name = name,
                 ml_num_messages = length (find_list name (db_messages w)),
                 ml_archive_urls = Map.empty\<rparr>
      in case db_aa_cache w name of
           Some urls \<Rightarrow> (w, Inr (ml0\<lparr>ml_archive_urls := urls\<rparr>))
         | None \<Rightarrow>
             (case list_messages lib w ml0 default_since default_until of
                (m # ms, r) \<Rightarrow> (w, Inl TypeError)
              | ([], Some err) \<Rightarrow> (w, Inl err)
              | ([], None) \<Rightarrow>
                  (aa_cache_replace name (ml_archive_urls ml0) w, Inr ml0)))"

text \<open>\<open>MailingList.message_from_archive_url\<close> (lines 150 to 153).\<close>

definition list_message_from_archive_url ::
  "'e email_lib \<Rightarrow> store \<Rightarrow> mailing_list \<Rightarrow> string \<Rightarrow> py_error + mailing_list_message" where
  "list_message_from_archive_url lib w ml archive_url =
     bind_err (parse_archive_url archive_url) (\<lambda>lh.
       if fst lh \<noteq> ml_list_name ml then Inl AssertionError
       else (case ml_archive_urls ml (snd lh) of
               None \<Rightarrow> Inl KeyError
             | Some msg_id \<Rightarrow> message lib w ml msg_id))"

section \<open>The archive facade\<close>

record mail_archive =
  mailing_lists :: "string \<rightharpoonup> mailing_list"

text \<open>\<open>MailArchive.mailing_list\<close> (lines 308 to 311).\<close>

definition mailing_list ::
  "'e email_lib \<Rightarrow> store \<Rightarrow> mail_archive \<Rightarrow> string
     \<Rightarrow> (store \<times> mail_archive) \<times> (py_error + mailing_list)" where
  "mailing_list lib w arch mailing_list_name =
     (case mailing_lists arch mailing_list_name of
        Some ml \<Rightarrow> ((w, arch), Inr ml)
      | None \<Rightarrow>
          (case mailing_list_init lib w mailing_list_name of
             (w', Inl err) \<Rightarrow> ((w', arch), Inl err)
           | (w', Inr ml) \<Rightarrow>
               ((w', arch\<lparr>mailing_lists := (mailing_lists arch)(mailing_list_name \<mapsto> ml)\<rparr>),
                Inr ml)))"

text \<open>
  \<open>MailArchive.message_from_archive_url\<close> (lines 314 to 329). \<open>requests_get\<close> gives the URL
  that \<open>requests.get(url)\<close> ends at, or the exception it raises. The legacy branch calls
  the method again on that URL, so the model counts the nested calls: \<open>None\<close> when
  \<open>fuel\<close> calls were not enough.
\<close>

fun message_from_archive_url ::
  "nat \<Rightarrow> 'e email_lib \<Rightarrow> (string \<Rightarrow> py_error + string) \<Rightarrow> store \<Rightarrow> mail_archive \<Rightarrow> string
     \<Rightarrow> ((store \<times> mail_archive) \<times> (py_error + mailing_list_message)) option" where
  "message_from_archive_url 0 lib requests_get w arch archive_url = None"
| "message_from_archive_url (Suc fuel) lib requests_get w arch archive_url =
     (if py_in ''//www.ietf.org/mail-archive/web/'' archive_url then
        (case requests_get archive_url of
           Inl err \<Rightarrow> Some ((w, arch), Inl err)
         | Inr response_url \<Rightarrow>
             if \<not> py_in ''//mailarchive.ietf.org/arch/msg'' response_url
             then Some ((w, arch), Inl AssertionError)
             else message_from_archive_url fuel lib requests_get w arch response_url)
      else if py_in ''//mailarchive.ietf.org/arch/msg'' archive_url then
        (case parse_archive_url archive_url of
           Inl err \<Rightarrow> Some ((w, arch), Inl err)
         | Inr lh \<Rightarrow>
             (case mailing_list lib w arch (fst lh) of
                (wa, Inl err) \<Rightarrow> Some (wa, Inl err)
              | (wa, Inr ml) \<Rightarrow>
                  Some (wa, list_message_from_archive_url lib (fst wa) ml archive_url)))
      else Some ((w, arch), Inl RuntimeError))"

text \<open>The constructor call of lines 356 to 363 in \<open>MailArchive.messages\<close>.\<close>

definition archive_message_of :: "message_doc \<Rightarrow> py_error + mailing_list_message" where
  "archive_message_of d =
     (let h = doc_headers d
      in Inr \<lparr>mlm_list_name = doc_list d,
              mlm_message_id = dict_get h ''Message-ID'' (dict_get h ''Message-Id'' None),
              mlm_from_addr = dict_get h ''From'' (dict_get h ''from'' None),
              mlm_subject = dict_get h ''Subject'' (dict_get h ''subject'' None),
              mlm_date = doc_timestamp d,
              mlm_in_reply_to = dict_get h ''In-Reply-To'' None,
              mlm_references = dict_get h ''References'' None,
              mlm_body = doc_body d\<rparr>)"

text \<open>\<open>MailArchive.messages\<close> (lines 351 to 363).\<close>

definition archive_messages ::
  "'e email_lib \<Rightarrow> store \<Rightarrow> string \<Rightarrow> string
     \<Rightarrow> mailing_list_message list \<times> py_error option" where
  "archive_messages lib w since until =
     (case strptime lib since of
        Inl err \<Rightarrow> ([], Some err)
      | Inr s \<Rightarrow>
          (case strptime lib until of
             Inl err \<Rightarrow> ([], Some err)
           | Inr u \<Rightarrow>
               yield_all archive_message_of
                 (filter (timestamp_between s u) (db_messages w))))"

text \<open>
  One synchronisation of a list through the facade, as \<open>download_all_messages\<close> does for
  each name (lines 345 and 346): get or create the handle, update it, and keep the
  updated handle in the facade. The state is returned whether or not the run raised.
\<close>

definition synchronize ::
  "'e email_lib \<Rightarrow> string \<times> remote_msg list \<Rightarrow> store \<times> mail_archive \<Rightarrow> store \<times> mail_archive" where
  "synchronize lib run wa =
     (case mailing_list lib (fst wa) (snd wa) (fst run) of
        (wa', Inl err) \<Rightarrow> wa'
      | (wa', Inr ml) \<Rightarrow>
          (case update lib (snd run) (fst wa') ml of
             ((w2, ml2), r) \<Rightarrow>
               (w2, (snd wa')\<lparr>mailing_lists := (mailing_lists (snd wa'))(fst run \<mapsto> ml2)\<rparr>)))"

section \<open>Concrete instances\<close>

text \<open>
  A small library instance for the examples: the parsed message is the raw text, every
  message carries the permalink of \<open>example-list\<close> whose hash is its own text, no date
  parses, the body is the whole text, and decoding accepts 7-bit text only.
\<close>

definition demo_lib :: "bytes email_lib" where
  "demo_lib =
     \<lparr>message_from_bytes = (\<lambda>raw. raw),
      get_item = (\<lambda>e n. Inr (if n = ''Archived-At''
                               then Some (''https://mailarchive.ietf.org/arch/msg/example-list/'' @ e)
                               else None)),
      parsedate = (\<lambda>d. Inr None),
      fromtimestamp_mktime = (\<lambda>tt. Inl (LibraryError 0)),
      items = (\<lambda>e. Inr []),
      get_body = (\<lambda>e. Inr (Some e)),
      get_payload = (\<lambda>e. Inr (Some e)),
      get_content_charset = (\<lambda>e. Inr None),
      decode = (\<lambda>b cs. if list_all (\<lambda>c. (of_char c :: nat) < 128) b then Inr b
                        else Inl (LibraryError 1)),
      soup_text = Inr,
      parse_reply = Inr,
      strptime = (\<lambda>s. if s = default_since then Inr 0
                       else if s = default_until then Inr 2147483647
                       else Inl (LibraryError 2))\<rparr>"

text \<open>A remote mailbox with one message, and the cache after one synchronisation of it.\<close>

definition demo_remote :: "remote_msg list" where
  "demo_remote = [\<lparr>uid = 42, rfc822_size = 6, rfc822 = ''abc123''\<rparr>]"

definition demo_state :: "store \<times> mail_archive" where
  "demo_state = synchronize demo_lib (''example-list'', demo_remote)
                  (empty_store, \<lparr>mailing_lists = Map.empty\<rparr>)"

text \<open>A cache with one dated document and one whose \<open>Date\<close> header did not parse.\<close>

definition dated_store :: store where
  "dated_store =
     \<lparr>db_messages =
        [\<lparr>doc_list = ''example-list'', doc_imap_uid = 1, doc_gridfs_id = 0, doc_size = 3,
          doc_timestamp = Some 1593561600, doc_headers = Map.empty, doc_body = ''one''\<rparr>,
         \<lparr>doc_list = ''example-list'', doc_imap_uid = 2, doc_gridfs_id = 1, doc_size = 3,
          doc_timestamp = None, doc_headers = Map.empty, doc_body = ''two''\<rparr>],
      db_aa_cache = Map.empty,
      fs_files = [0 \<mapsto> ''one'', 1 \<mapsto> ''two''],
      fs_next_id = 2\<rparr>"

section \<open>Predicates used to state the properties\<close>

text \<open>
  What one run decides for a remote message from the snapshot \<open>cached\<close> taken on line
  188: \<open>stale\<close> is the branch of lines 196 to 201, \<open>needs_fetch\<close> is either branch that
  appends to \<open>msg_fetch\<close>.
\<close>

definition stale :: "(nat \<rightharpoonup> message_doc) \<Rightarrow> remote_msg \<Rightarrow> bool" where
  "stale cached m =
     (case cached (uid m) of None \<Rightarrow> False | Some c \<Rightarrow> doc_size c \<noteq> rfc822_size m)"

definition needs_fetch :: "(nat \<rightharpoonup> message_doc) \<Rightarrow> remote_msg \<Rightarrow> bool" where
  "needs_fetch cached m =
     (case cached (uid m) of None \<Rightarrow> True | Some c \<Rightarrow> doc_size c \<noteq> rfc822_size m)"

text \<open>
  A consistent cache: the unique index holds, every row owns a blob of its own, the blob
  exists, and every blob name was given out by the blob store.
\<close>

definition store_wf :: "store \<Rightarrow> bool" where
  "store_wf w =
     (unique_keys (db_messages w) \<and>
      distinct (map doc_gridfs_id (db_messages w)) \<and>
      list_all (\<lambda>d. fs_files w (doc_gridfs_id d) \<noteq> None) (db_messages w) \<and>
      dom (fs_files w) \<subseteq> {..<fs_next_id w})"

text \<open>
  A mailbox as the IMAP protocol describes it: UIDs are unique within the folder, and
  \<open>RFC822.SIZE\<close> is the number of bytes of the message.
\<close>

definition uids_unique :: "remote_msg list \<Rightarrow> bool" where
  "uids_unique remote = distinct (map uid remote)"

definition sizes_exact :: "remote_msg list \<Rightarrow> bool" where
  "sizes_exact remote = list_all (\<lambda>m. rfc822_size m = length (rfc822 m)) remote"

text \<open>Reading the \<open>Archived-At\<close> header (line 207, outside any \<open>try\<close>) raises for no message.\<close>

definition archived_at_readable :: "'e email_lib \<Rightarrow> remote_msg list \<Rightarrow> bool" where
  "archived_at_readable lib remote =
     list_all (\<lambda>m. \<not> isl (get_item lib (message_from_bytes lib (rfc822 m)) ''Archived-At''))
       remote"

text \<open>
  The documents that a run stages for the fetched messages \<open>ps\<close> when the blob store
  hands out the names \<open>k\<close>, \<open>k + 1\<close>, and so on.
\<close>

fun new_docs :: "'e email_lib \<Rightarrow> string \<Rightarrow> nat \<Rightarrow> (nat \<times> bytes) list \<Rightarrow> message_doc list" where
  "new_docs lib name k [] = []"
| "new_docs lib name k (p # ps) =
     projr (normalize_message lib name (fst p) k (snd p) (message_from_bytes lib (snd p)))
       # new_docs lib name (Suc k) ps"

text \<open>A sequence of synchronisation runs, each of a named list against a mailbox.\<close>

fun synchronize_runs ::
  "'e email_lib \<Rightarrow> (string \<times> remote_msg list) list \<Rightarrow> store \<times> mail_archive
     \<Rightarrow> store \<times> mail_archive" where
  "synchronize_runs lib [] wa = wa"
| "synchronize_runs lib (run # runs) wa = synchronize_runs lib runs (synchronize lib run wa)"

text \<open>
  The remote messages that a run of the list \<open>name\<close> fetches, and the condition that no
  cached row of the list has a size different from the one the mailbox reports.
\<close>

definition to_fetch :: "string \<Rightarrow> store \<Rightarrow> remote_msg list \<Rightarrow> remote_msg list" where
  "to_fetch name w remote =
     filter (needs_fetch (cached_messages name (db_messages w))) remote"

definition cache_current :: "string \<Rightarrow> store \<Rightarrow> remote_msg list \<Rightarrow> bool" where
  "cache_current name w remote =
     list_all (\<lambda>m. \<not> stale (cached_messages name (db_messages w)) m) remote"

text \<open>
  The handle of \<open>example-list\<close> over \<open>dated_store\<close>, and a mailbox in which message 1 is
  as cached, message 2 has grown from 3 to 5 bytes, and message 3 is new.
\<close>

definition dated_list :: mailing_list where
  "dated_list =
     \<lparr>ml_list_name = ''example-list'', ml_num_messages = 2, ml_archive_urls = Map.empty\<rparr>"

definition changed_remote :: "remote_msg list" where
  "changed_remote =
     [\<lparr>uid = 1, rfc822_size = 3, rfc822 = ''one''\<rparr>,
      \<lparr>uid = 2, rfc822_size = 5, rfc822 = ''two!!''\<rparr>,
      \<lparr>uid = 3, rfc822_size = 5, rfc822 = ''three''\<rparr>]"

text \<open>
  A mailbox in which the messages 1 and 2 are as cached and message 3 is new, and a
  mailbox whose only message has 6 bytes while the server reports a size of 10.
\<close>

definition extended_remote :: "remote_msg list" where
  "extended_remote =
     [\<lparr>uid = 1, rfc822_size = 3, rfc822 = ''one''\<rparr>,
      \<lparr>uid = 2, rfc822_size = 3, rfc822 = ''two''\<rparr>,
      \<lparr>uid = 3, rfc822_size = 5, rfc822 = ''three''\<rparr>]"

definition misreported_remote :: "remote_msg list" where
  "misreported_remote = [\<lparr>uid = 42, rfc822_size = 10, rfc822 = ''abc123''\<rparr>]"

text \<open>The state in which the fetch loop starts on an empty cache.\<close>

definition initial_fetch_state :: fetch_state where
  "initial_fetch_state =
     \<lparr>the_store = empty_store,
      the_list = \<lparr>ml_list_name = ''example-list'', ml_num_messages = 0,
                  ml_archive_urls = Map.empty\<rparr>,
      cache_replaces = [], new_msgs = []\<rparr>"

text \<open>A mailbox answer of one thousand empty messages with the UIDs 0 to 999.\<close>

definition thousand_messages :: "(nat \<times> bytes) list" where
  "thousand_messages = map (\<lambda>i. (i, [])) [0..<1000]"

text \<open>The one-message mailbox of \<open>demo_remote\<close> after its message has grown by a byte.\<close>

definition grown_remote :: "remote_msg list" where
  "grown_remote = [\<lparr>uid = 42, rfc822_size = 7, rfc822 = ''abc1234''\<rparr>]"

section \<open>Basic facts\<close>

lemma bind_err_simps [simp]:
  "bind_err (Inl err) f = Inl err"
  "bind_err (Inr x) f = f x"
  by (simp_all add: bind_err_def)

lemma try_except_simps [simp]:
  "try_except (Inl err) dflt = dflt"
  "try_except (Inr x) dflt = x"
  by (simp_all add: try_except_def)

lemma py_find_absent: "\<not> py_in sub s \<Longrightarrow> py_find s sub = - 1"
  by (simp add: py_in_def)

lemmas str_defs =
  parse_archive_url_def py_find_def py_in_def slice_from_def slice_to_def strip_def is_space_def

section \<open>The archive-URL codec\<close>

text \<open>
  C8, as the code has it. \<open>_parse_archive_url\<close> returns a pair for every input and raises
  for none. When the marker \<open>://mailarchive.ietf.org/arch/msg\<close> is absent, \<open>find\<close> gives
  \<open>-1\<close> and the pair is cut from the text after the first 32 characters. The function
  depends on its argument only. A URL is refused one level up: the facade's
  \<open>message_from_archive_url\<close> raises \<open>RuntimeError\<close> for a URL that contains neither the
  legacy marker nor \<open>//mailarchive.ietf.org/arch/msg\<close>.
\<close>

theorem parse_archive_url_total:
  "(\<exists>l h. parse_archive_url url = Inr (l, h)) \<and>
   (\<not> py_in ''://mailarchive.ietf.org/arch/msg'' url \<longrightarrow>
      parse_archive_url url =
        Inr (slice_to (strip (drop 32 url)) (py_find (strip (drop 32 url)) ''/''),
             slice_from (strip (drop 32 url)) (py_find (strip (drop 32 url)) ''/'' + 1))) \<and>
   (\<not> py_in ''//www.ietf.org/mail-archive/web/'' url \<and>
    \<not> py_in ''//mailarchive.ietf.org/arch/msg'' url \<longrightarrow>
      message_from_archive_url (Suc fuel) lib requests_get w arch url =
        Some ((w, arch), Inl RuntimeError))"
  by (simp add: parse_archive_url_def Let_def py_find_absent slice_from_def)

theorem parse_archive_url_total_witness:
  "\<not> py_in ''://mailarchive.ietf.org/arch/msg''
       ''ftp://example.org/pub/some-list/2020-07/msg00042.txt'' \<and>
   \<not> py_in ''//www.ietf.org/mail-archive/web/''
       ''ftp://example.org/pub/some-list/2020-07/msg00042.txt'' \<and>
   \<not> py_in ''//mailarchive.ietf.org/arch/msg''
       ''ftp://example.org/pub/some-list/2020-07/msg00042.txt'' \<and>
   parse_archive_url ''ftp://example.org/pub/some-list/2020-07/msg00042.txt''
     = Inr (''2020-07'', ''msg00042.txt'') \<and>
   message_from_archive_url (Suc 0) demo_lib Inr empty_store \<lparr>mailing_lists = Map.empty\<rparr>
      ''ftp://example.org/pub/some-list/2020-07/msg00042.txt''
     = Some ((empty_store, \<lparr>mailing_lists = Map.empty\<rparr>), Inl RuntimeError)"
  using parse_archive_url_total
    [of "''ftp://example.org/pub/some-list/2020-07/msg00042.txt''" 0 demo_lib Inr
        empty_store "\<lparr>mailing_lists = Map.empty\<rparr>"]
  by (simp add: py_in_def py_find_def slice_from_def slice_to_def strip_def is_space_def)

text \<open>
  C8 as the specification states it fails: a legacy URL does not contain the marker, and
  the codec returns a pair for it, not \<open>MalformedURLError\<close>.
\<close>

theorem parse_archive_url_no_error_counterexample:
  "\<not> py_in ''://mailarchive.ietf.org/arch/msg''
        ''https://www.ietf.org/mail-archive/web/quic/current/msg00001.html'' \<and>
   parse_archive_url ''https://www.ietf.org/mail-archive/web/quic/current/msg00001.html''
     \<noteq> Inl MalformedURLError \<and>
   parse_archive_url ''https://www.ietf.org/mail-archive/web/quic/current/msg00001.html''
     = Inr (''e'', ''web/quic/current/msg00001.html'')"
  by (simp add: str_defs)

section \<open>Message normalisation\<close>

text \<open>
  C4. The record construction of lines 211 to 231 returns a document for every raw
  message, every parsed message and every behaviour of the libraries it calls: there is
  no input on which it raises. When reading or converting the date raises, or
  \<open>parsedate\<close> answers \<open>None\<close> (an unparsable \<open>Date\<close>), the timestamp is absent; when the
  body extraction raises at any step (a missing body part, bytes that do not decode),
  the extracted body is the empty string. A zero-byte payload is one more input.
\<close>

theorem normalize_total:
  "\<exists>doc. normalize_message lib name msg_id cache_file_id raw e = Inr doc \<and>
     doc_list doc = name \<and> doc_imap_uid doc = msg_id \<and>
     doc_gridfs_id doc = cache_file_id \<and> doc_size doc = length raw \<and>
     (isl (timestamp_body lib e) \<longrightarrow> doc_timestamp doc = None) \<and>
     (get_item lib e ''Date'' = Inr d \<and> parsedate lib d = Inr None \<longrightarrow> doc_timestamp doc = None) \<and>
     (isl (headers_body lib e) \<longrightarrow> doc_headers doc = Map.empty) \<and>
     (isl (clean_email_text_body lib e) \<longrightarrow> doc_body doc = [])"
  by (cases "timestamp_body lib e"; cases "headers_body lib e"; cases "clean_email_text_body lib e")
     (auto simp: normalize_message_def clean_email_text_def timestamp_body_def Let_def)

theorem normalize_total_witness:
  "isl (clean_email_text_body demo_lib [CHR 0xFF, CHR 0xFE]) \<and>
   get_item demo_lib [CHR 0xFF, CHR 0xFE] ''Date'' = Inr None \<and>
   parsedate demo_lib None = Inr None \<and>
   (\<exists>doc. normalize_message demo_lib ''example-list'' 7 0 [CHR 0xFF, CHR 0xFE] [CHR 0xFF, CHR 0xFE]
             = Inr doc \<and>
      doc_timestamp doc = None \<and> doc_body doc = []) \<and>
   (\<exists>doc. normalize_message demo_lib ''example-list'' 8 1 [] [] = Inr doc \<and>
      doc_size doc = 0 \<and> doc_timestamp doc = None)"
proof -
  have a: "isl (clean_email_text_body demo_lib [CHR 0xFF, CHR 0xFE])"
    by (simp add: demo_lib_def clean_email_text_body_def)
  have b: "get_item demo_lib e ''Date'' = Inr None" for e
    by (simp add: demo_lib_def)
  have c: "parsedate demo_lib None = Inr None"
    by (simp add: demo_lib_def)
  have "\<exists>doc. normalize_message demo_lib ''example-list'' 7 0 [CHR 0xFF, CHR 0xFE] [CHR 0xFF, CHR 0xFE]
             = Inr doc \<and>
      doc_timestamp doc = None \<and> doc_body doc = []"
    using normalize_total [of demo_lib "''example-list''" 7 0 "[CHR 0xFF, CHR 0xFE]"
        "[CHR 0xFF, CHR 0xFE]" None] a b c
    by blast
  moreover have "\<exists>doc. normalize_message demo_lib ''example-list'' 8 1 [] [] = Inr doc \<and>
      doc_size doc = 0 \<and> doc_timestamp doc = None"
    using normalize_total [of demo_lib "''example-list''" 8 1 "[]" "[]" None] b c
    by fastforce
  ultimately show ?thesis using a b c by blast
qed

section \<open>Range queries\<close>

lemma yield_all_sound:
  "m \<in> set (fst (yield_all f ds)) \<Longrightarrow> \<exists>d \<in> set ds. f d = Inr m"
  by (induction ds arbitrary: m) (auto split: sum.splits prod.splits)

lemma list_message_of_raises: "list_message_of name d \<noteq> Inr m"
  by (simp add: list_message_of_def split: option.splits)

lemma yield_all_list_message_of: "fst (yield_all (list_message_of name) ds) = []"
  by (cases ds) (auto simp: list_message_of_raises split: sum.splits)

text \<open>
  C9. Every message that \<open>MailArchive.messages\<close> yields was built from a stored document
  whose timestamp is present and lies strictly between the parsed bounds, and it
  carries that timestamp; so a document without a timestamp is never yielded, whatever
  the bounds. \<open>MailingList.messages\<close> applies the same filter and then raises on line 167
  or 168 at the first document it selects: it yields no message at all, in particular
  none outside the bounds.
\<close>

theorem range_queries_strict:
  "(\<forall>m \<in> set (fst (archive_messages lib w since until)).
      \<exists>d \<in> set (db_messages w). \<exists>s u t.
        archive_message_of d = Inr m \<and> mlm_date m = doc_timestamp d \<and>
        strptime lib since = Inr s \<and> strptime lib until = Inr u \<and>
        doc_timestamp d = Some t \<and> s < t \<and> t < u) \<and>
   fst (list_messages lib w ml since until) = []"
proof (intro conjI ballI)
  fix m
  assume m: "m \<in> set (fst (archive_messages lib w since until))"
  then obtain s u where s: "strptime lib since = Inr s" and u: "strptime lib until = Inr u"
    by (auto simp: archive_messages_def split: sum.splits)
  with m have "m \<in> set (fst (yield_all archive_message_of
                  (filter (timestamp_between s u) (db_messages w))))"
    by (simp add: archive_messages_def)
  then obtain d where d: "d \<in> set (db_messages w)" "timestamp_between s u d"
      "archive_message_of d = Inr m"
    using yield_all_sound [of m archive_message_of "filter (timestamp_between s u) (db_messages w)"]
    by auto
  from d(2) obtain t where "doc_timestamp d = Some t" "s < t" "t < u"
    by (auto simp: timestamp_between_def split: option.splits)
  moreover from d(3) have "mlm_date m = doc_timestamp d"
    by (auto simp: archive_message_of_def Let_def)
  ultimately show "\<exists>d \<in> set (db_messages w). \<exists>s u t.
        archive_message_of d = Inr m \<and> mlm_date m = doc_timestamp d \<and>
        strptime lib since = Inr s \<and> strptime lib until = Inr u \<and>
        doc_timestamp d = Some t \<and> s < t \<and> t < u"
    using d s u by blast
next
  show "fst (list_messages lib w ml since until) = []"
    by (simp add: list_messages_def yield_all_list_message_of split: sum.splits)
qed

theorem range_queries_strict_witness:
  "length (db_messages dated_store) = 2 \<and>
   length (fst (archive_messages demo_lib dated_store default_since default_until)) = 1 \<and>
   (\<exists>s u t. strptime demo_lib default_since = Inr s \<and> strptime demo_lib default_until = Inr u \<and>
       mlm_date (hd (fst (archive_messages demo_lib dated_store default_since default_until)))
         = Some t \<and>
       s < t \<and> t < u)"
proof -
  let ?ys = "fst (archive_messages demo_lib dated_store default_since default_until)"
  have ys: "?ys =
     [\<lparr>mlm_list_name = ''example-list'', mlm_message_id = None, mlm_from_addr = None,
       mlm_subject = None, mlm_date = Some 1593561600, mlm_in_reply_to = None,
       mlm_references = None, mlm_body = ''one''\<rparr>]"
    by (simp add: archive_messages_def demo_lib_def dated_store_def timestamp_between_def
        archive_message_of_def dict_get_def default_since_def default_until_def)
  then have "hd ?ys \<in> set ?ys" by simp
  with range_queries_strict [of demo_lib dated_store default_since default_until]
  have "\<exists>s u t. strptime demo_lib default_since = Inr s \<and> strptime demo_lib default_until = Inr u \<and>
       mlm_date (hd ?ys) = Some t \<and> s < t \<and> t < u"
    by metis
  moreover have "length (db_messages dated_store) = 2" by (simp add: dated_store_def)
  ultimately show ?thesis using ys by simp
qed

section \<open>Point lookup and archive-URL resolution\<close>

text \<open>
  \<open>MailingList.message\<close> returns for no input: \<open>raw_message\<close> raises for an absent id,
  and for a present one the next argument reads the attribute that is never set.
\<close>

lemma message_never_returns: "message lib w ml msg_id \<noteq> Inr m"
  by (simp add: message_def get_msg_metadata_def bind_err_def split: sum.splits)

text \<open>
  C5 at a concrete cache: after one synchronisation of \<open>example-list\<close> with a mailbox that
  holds message 42, the cache holds the row \<open>(example-list, 42)\<close>. \<open>raw_message\<close> returns the
  stored message for 42 and raises \<open>UnboundLocalError\<close> for the absent id 7; \<open>message\<close>
  raises \<open>AttributeError\<close> for the present id 42, where the specification has it return
  the stored message.
\<close>

theorem message_raises_on_cached_id:
  "(case mailing_lists (snd demo_state) ''example-list'' of
      None \<Rightarrow> False
    | Some ml \<Rightarrow>
        map doc_key (db_messages (fst demo_state)) = [(''example-list'', 42)] \<and>
        raw_message demo_lib (fst demo_state) ml 42 = Inr ''abc123'' \<and>
        message demo_lib (fst demo_state) ml 42 = Inl AttributeError \<and>
        raw_message demo_lib (fst demo_state) ml 7 = Inl UnboundLocalError \<and>
        message demo_lib (fst demo_state) ml 7 = Inl UnboundLocalError)"
  by code_simp

text \<open>
  C6 at the same cache: message 42 carries the permalink
  \<open>https://mailarchive.ietf.org/arch/msg/example-list/abc123\<close>, the index of the list maps
  \<open>abc123\<close> to 42, and resolving that permalink through the facade raises
  \<open>AttributeError\<close>: the resolution ends in \<open>MailingList.message\<close>, which returns nothing.
\<close>

theorem archive_url_resolution_raises:
  "map doc_key (db_messages (fst demo_state)) = [(''example-list'', 42)] \<and>
   get_item demo_lib (message_from_bytes demo_lib ''abc123'') ''Archived-At''
     = Inr (Some ''https://mailarchive.ietf.org/arch/msg/example-list/abc123'') \<and>
   map_option (\<lambda>ml. ml_archive_urls ml ''abc123'')
     (mailing_lists (snd demo_state) ''example-list'') = Some (Some 42) \<and>
   map_option snd
     (message_from_archive_url 1 demo_lib Inr (fst demo_state) (snd demo_state)
        ''https://mailarchive.ietf.org/arch/msg/example-list/abc123'')
     = Some (Inl AttributeError)"
  by code_simp

section \<open>Properties of a synchronisation run\<close>

lemma parse_archive_url_Inr: "\<exists>lh. parse_archive_url url = Inr lh"
  by (simp add: parse_archive_url_def Let_def)

lemma normalize_message_Inr:
  "normalize_message lib name msg_id k raw e =
     Inr (projr (normalize_message lib name msg_id k raw e))"
  by (simp add: normalize_message_def clean_email_text_def Let_def)

lemma doc_key_new_doc [simp]:
  "doc_key (projr (normalize_message lib name msg_id k raw e)) = (name, msg_id)"
  by (simp add: normalize_message_def clean_email_text_def Let_def doc_key_def)

lemma new_doc_fields [simp]:
  "doc_list (projr (normalize_message lib name msg_id k raw e)) = name"
  "doc_imap_uid (projr (normalize_message lib name msg_id k raw e)) = msg_id"
  "doc_gridfs_id (projr (normalize_message lib name msg_id k raw e)) = k"
  "doc_size (projr (normalize_message lib name msg_id k raw e)) = length raw"
  by (simp_all add: normalize_message_def clean_email_text_def Let_def)

subsection \<open>The collection operations\<close>

lemma bulk_write_unique:
  "unique_keys coll \<Longrightarrow> unique_keys (fst (bulk_write ops coll))"
  by (induction ops arbitrary: coll) (auto simp: unique_keys_def)

lemma bulk_write_ok:
  "distinct (map doc_key ops) \<Longrightarrow> set (map doc_key ops) \<inter> set (map doc_key coll) = {}
     \<Longrightarrow> bulk_write ops coll = (coll @ ops, None)"
  by (induction ops arbitrary: coll) auto

lemma bulk_write_ok':
  "unique_keys (coll @ ops) \<Longrightarrow> bulk_write ops coll = (coll @ ops, None)"
  by (rule bulk_write_ok) (auto simp: unique_keys_def)

lemma find_one_Some:
  "find_one name i coll = Some c \<Longrightarrow> c \<in> set coll \<and> doc_key c = (name, i)"
  by (auto simp: find_one_def find_Some_iff doc_key_def)

lemma find_one_None:
  "find_one name i coll = None \<longleftrightarrow> (name, i) \<notin> set (map doc_key coll)"
  by (auto simp: find_one_def find_None_iff doc_key_def)

lemma find_one_unique:
  "unique_keys coll \<Longrightarrow> c \<in> set coll \<Longrightarrow> find_one (doc_list c) (doc_imap_uid c) coll = Some c"
proof (induction coll)
  case Nil
  then show ?case by simp
next
  case (Cons d ds)
  then show ?case
    by (auto simp: find_one_def unique_keys_def doc_key_def rev_image_eqI)
qed

lemma map_of_find:
  "map_of (map (\<lambda>d. (doc_imap_uid d, d)) (filter (\<lambda>d. doc_list d = name) coll)) i
     = List.find (\<lambda>d. doc_list d = name \<and> doc_imap_uid d = i) coll"
  by (induction coll) auto

lemma cached_messages_find_one:
  assumes "unique_keys coll"
  shows "cached_messages name coll i = find_one name i coll"
proof -
  let ?xs = "map (\<lambda>d. (doc_imap_uid d, d)) (find_list name coll)"
  have "distinct (map doc_key (find_list name coll))"
    using assms by (simp add: unique_keys_def find_list_def distinct_map_filter)
  then have "distinct (map fst ?xs)"
    by (auto simp: distinct_map find_list_def doc_key_def inj_on_def comp_def)
  then have "map_of (rev ?xs) = map_of ?xs"
    by (subst map_of_inject_set) (simp_all add: rev_map [symmetric] del: map_map)
  then show ?thesis
    by (simp add: cached_messages_def find_one_def find_list_def map_of_find)
qed

subsection \<open>The size scan\<close>

text \<open>
  The scan never changes the store: in the branch of a size mismatch, line 199 raises
  before the row is deleted on line 200.
\<close>

lemma size_scan_store: "fst (size_scan name cached ms w acc) = w"
  by (induction ms arbitrary: acc)
     (auto simp: grid_out_delete_def split: option.splits sum.splits)

lemma size_scan_current:
  "list_all (\<lambda>m. \<not> stale cached m) ms \<Longrightarrow>
     size_scan name cached ms w acc = (w, Inr (acc @ map uid (filter (needs_fetch cached) ms)))"
  by (induction ms arbitrary: acc)
     (auto simp: stale_def needs_fetch_def split: option.splits)

lemma size_scan_stale:
  assumes "\<not> list_all (\<lambda>m. \<not> stale cached m) ms"
    and "\<forall>m \<in> set ms. \<forall>c. cached (uid m) = Some c \<longrightarrow> fs_files w (doc_gridfs_id c) \<noteq> None"
  shows "size_scan name cached ms w acc = (w, Inl AttributeError)"
  using assms
proof (induction ms arbitrary: acc)
  case Nil
  then show ?case by simp
next
  case (Cons m ms)
  show ?case
  proof (cases "stale cached m")
    case True
    then obtain c where c: "cached (uid m) = Some c" "doc_size c \<noteq> rfc822_size m"
      by (auto simp: stale_def split: option.splits)
    with Cons.prems(2) obtain data where "fs_files w (doc_gridfs_id c) = Some data"
      by auto
    with c show ?thesis
      by (simp add: fs_get_def grid_out_delete_def)
  next
    case False
    with Cons.prems have rest: "\<not> list_all (\<lambda>m. \<not> stale cached m) ms"
      and blobs: "\<forall>m \<in> set ms. \<forall>c. cached (uid m) = Some c \<longrightarrow> fs_files w (doc_gridfs_id c) \<noteq> None"
      by simp_all
    from False have "cached (uid m) = None \<or> (\<exists>c. cached (uid m) = Some c \<and> doc_size c = rfc822_size m)"
      by (auto simp: stale_def split: option.splits)
    then show ?thesis
      using Cons.IH [OF rest blobs] by auto
  qed
qed

subsection \<open>One iteration of the fetch loop\<close>

lemma fetch_one_ok:
  assumes ok: "\<not> isl (get_item lib (message_from_bytes lib (snd p)) ''Archived-At'')"
    and uniq: "unique_keys (db_messages (the_store s) @ cache_replaces s)"
    and fresh: "(ml_list_name (the_list s), fst p)
                  \<notin> set (map doc_key (db_messages (the_store s) @ cache_replaces s))"
  shows "\<exists>s'. fetch_one lib p s = (s', None) \<and>
     fs_files (the_store s') = (fs_files (the_store s))(fs_next_id (the_store s) \<mapsto> snd p) \<and>
     fs_next_id (the_store s') = Suc (fs_next_id (the_store s)) \<and>
     db_aa_cache (the_store s') = db_aa_cache (the_store s) \<and>
     db_messages (the_store s') =
       (if 1000 \<le> length (cache_replaces s)
        then db_messages (the_store s) @ cache_replaces s
               @ new_docs lib (ml_list_name (the_list s)) (fs_next_id (the_store s)) [p]
        else db_messages (the_store s)) \<and>
     cache_replaces s' =
       (if 1000 \<le> length (cache_replaces s) then []
        else cache_replaces s
               @ new_docs lib (ml_list_name (the_list s)) (fs_next_id (the_store s)) [p]) \<and>
     new_msgs s' = new_msgs s @ [fst p] \<and>
     ml_list_name (the_list s') = ml_list_name (the_list s) \<and>
     ml_num_messages (the_list s') = Suc (ml_num_messages (the_list s))"
proof -
  let ?e = "message_from_bytes lib (snd p)"
  let ?name = "ml_list_name (the_list s)"
  define d where "d = projr (normalize_message lib ?name (fst p) (fs_next_id (the_store s)) (snd p) ?e)"
  have nd: "normalize_message lib ?name (fst p) (fs_next_id (the_store s)) (snd p) ?e = Inr d"
    unfolding d_def by (rule normalize_message_Inr)
  have key: "doc_key d = (?name, fst p)"
    unfolding d_def by simp
  obtain a where a: "get_item lib ?e ''Archived-At'' = Inr a"
    using ok by (cases "get_item lib ?e ''Archived-At''") auto
  have bw: "bulk_write (cache_replaces s @ [d]) (db_messages (the_store s))
              = (db_messages (the_store s) @ cache_replaces s @ [d], None)"
    using bulk_write_ok' [of "db_messages (the_store s)" "cache_replaces s @ [d]"] uniq fresh key
    by (simp add: unique_keys_def)
  show ?thesis
  proof (cases a)
    case None
    show ?thesis
      by (cases "1000 \<le> length (cache_replaces s)")
         (simp_all add: fetch_one_def Let_def fs_put_def a None nd bw d_def [symmetric])
  next
    case (Some url)
    obtain lh where lh: "parse_archive_url url = Inr lh"
      using parse_archive_url_Inr by blast
    show ?thesis
      by (cases "1000 \<le> length (cache_replaces s)")
         (simp_all add: fetch_one_def Let_def fs_put_def a Some lh nd bw d_def [symmetric])
  qed
qed


subsection \<open>The fetch loop\<close>

lemma doc_key_new_docs: "map doc_key (new_docs lib name k ps) = map (\<lambda>p. (name, fst p)) ps"
  by (induction ps arbitrary: k) simp_all

lemma length_new_docs [simp]: "length (new_docs lib name k ps) = length ps"
  by (induction ps arbitrary: k) simp_all

lemma fetch_loop_ok:
  assumes "list_all (\<lambda>p. \<not> isl (get_item lib (message_from_bytes lib (snd p)) ''Archived-At'')) ps"
    and "unique_keys (db_messages (the_store s) @ cache_replaces s)"
    and "distinct (map fst ps)"
    and "\<forall>p \<in> set ps. (name, fst p)
            \<notin> set (map doc_key (db_messages (the_store s) @ cache_replaces s))"
    and "ml_list_name (the_list s) = name"
  shows "\<exists>s'. fetch_loop lib ps s = (s', None) \<and>
     db_messages (the_store s') @ cache_replaces s'
       = db_messages (the_store s) @ cache_replaces s
           @ new_docs lib name (fs_next_id (the_store s)) ps \<and>
     (\<forall>i. fs_files (the_store s') i =
        (if fs_next_id (the_store s) \<le> i \<and> i < fs_next_id (the_store s) + length ps
         then Some (snd (ps ! (i - fs_next_id (the_store s))))
         else fs_files (the_store s) i)) \<and>
     fs_next_id (the_store s') = fs_next_id (the_store s) + length ps \<and>
     db_aa_cache (the_store s') = db_aa_cache (the_store s) \<and>
     new_msgs s' = new_msgs s @ map fst ps \<and>
     ml_list_name (the_list s') = name \<and>
     ml_num_messages (the_list s') = ml_num_messages (the_list s) + length ps \<and>
     (length (cache_replaces s) \<le> 1000 \<longrightarrow> length (cache_replaces s') \<le> 1000) \<and>
     (length (cache_replaces s) + length ps \<le> 1000 \<longrightarrow>
        db_messages (the_store s') = db_messages (the_store s))"
  using assms
proof (induction ps arbitrary: s)
  case Nil
  then show ?case by auto
next
  case (Cons p ps)
  let ?k = "fs_next_id (the_store s)"
  let ?d = "new_docs lib name ?k [p]"
  have ok: "\<not> isl (get_item lib (message_from_bytes lib (snd p)) ''Archived-At'')"
    using Cons.prems(1) by simp
  have fresh: "(ml_list_name (the_list s), fst p)
                  \<notin> set (map doc_key (db_messages (the_store s) @ cache_replaces s))"
    using Cons.prems(4,5) by simp
  from fetch_one_ok [OF ok Cons.prems(2) fresh] Cons.prems(5)
  obtain s1 where s1: "fetch_one lib p s = (s1, None)"
    and files1: "fs_files (the_store s1) = (fs_files (the_store s))(?k \<mapsto> snd p)"
    and next1: "fs_next_id (the_store s1) = Suc ?k"
    and aa1: "db_aa_cache (the_store s1) = db_aa_cache (the_store s)"
    and db1: "db_messages (the_store s1) =
       (if 1000 \<le> length (cache_replaces s)
        then db_messages (the_store s) @ cache_replaces s @ ?d
        else db_messages (the_store s))"
    and staged1: "cache_replaces s1 =
       (if 1000 \<le> length (cache_replaces s) then [] else cache_replaces s @ ?d)"
    and new1: "new_msgs s1 = new_msgs s @ [fst p]"
    and name1: "ml_list_name (the_list s1) = name"
    and num1: "ml_num_messages (the_list s1) = Suc (ml_num_messages (the_list s))"
    by (elim exE conjE) (simp only:)
  have all1: "db_messages (the_store s1) @ cache_replaces s1
                = db_messages (the_store s) @ cache_replaces s @ ?d"
    using db1 staged1 by simp
  have keyd: "map doc_key ?d = [(name, fst p)]"
    by (simp add: doc_key_new_docs)
  have u1: "unique_keys (db_messages (the_store s1) @ cache_replaces s1)"
    using Cons.prems(2) fresh Cons.prems(5) keyd unfolding all1 unique_keys_def
    by simp
  have f1: "\<forall>q \<in> set ps. (name, fst q)
            \<notin> set (map doc_key (db_messages (the_store s1) @ cache_replaces s1))"
  proof
    fix q assume q: "q \<in> set ps"
    from Cons.prems(3) have "fst p \<notin> fst ` set ps" by simp
    with q have "fst q \<noteq> fst p" by (metis imageI)
    moreover have "(name, fst q)
            \<notin> set (map doc_key (db_messages (the_store s) @ cache_replaces s))"
      using Cons.prems(4) q by simp
    ultimately show "(name, fst q)
            \<notin> set (map doc_key (db_messages (the_store s1) @ cache_replaces s1))"
      using keyd unfolding all1 by simp
  qed
  have "list_all (\<lambda>p. \<not> isl (get_item lib (message_from_bytes lib (snd p)) ''Archived-At'')) ps"
    and "distinct (map fst ps)"
    using Cons.prems(1,3) by simp_all
  from Cons.IH [OF this(1) u1 this(2) f1 name1]
  obtain s' where loop: "fetch_loop lib ps s1 = (s', None)"
    and all': "db_messages (the_store s') @ cache_replaces s'
       = db_messages (the_store s1) @ cache_replaces s1 @ new_docs lib name (Suc ?k) ps"
    and files': "\<And>i. fs_files (the_store s') i =
        (if Suc ?k \<le> i \<and> i < Suc ?k + length ps
         then Some (snd (ps ! (i - Suc ?k)))
         else fs_files (the_store s1) i)"
    and next': "fs_next_id (the_store s') = Suc ?k + length ps"
    and aa': "db_aa_cache (the_store s') = db_aa_cache (the_store s1)"
    and new': "new_msgs s' = new_msgs s1 @ map fst ps"
    and name': "ml_list_name (the_list s') = name"
    and num': "ml_num_messages (the_list s') = ml_num_messages (the_list s1) + length ps"
    and bound': "length (cache_replaces s1) \<le> 1000 \<longrightarrow> length (cache_replaces s') \<le> 1000"
    and quiet': "length (cache_replaces s1) + length ps \<le> 1000 \<longrightarrow>
        db_messages (the_store s') = db_messages (the_store s1)"
    unfolding next1 by (elim exE conjE) blast
  have r: "fetch_loop lib (p # ps) s = (s', None)"
    using s1 loop by simp
  have allr: "db_messages (the_store s') @ cache_replaces s'
       = db_messages (the_store s) @ cache_replaces s @ new_docs lib name ?k (p # ps)"
    using all' all1 by simp
  have filesr: "fs_files (the_store s') i =
        (if ?k \<le> i \<and> i < ?k + length (p # ps)
         then Some (snd ((p # ps) ! (i - ?k)))
         else fs_files (the_store s) i)" for i
    unfolding files' files1 by (auto simp: nth_Cons' not_less_eq_eq)
  have boundr: "length (cache_replaces s) \<le> 1000 \<longrightarrow> length (cache_replaces s') \<le> 1000"
    using bound' staged1 by auto
  have quietr: "length (cache_replaces s) + length (p # ps) \<le> 1000 \<longrightarrow>
        db_messages (the_store s') = db_messages (the_store s)"
    using quiet' staged1 db1 by auto
  have nextr: "fs_next_id (the_store s') = ?k + length (p # ps)"
    using next' by simp
  have aar: "db_aa_cache (the_store s') = db_aa_cache (the_store s)"
    using aa' aa1 by simp
  have newr: "new_msgs s' = new_msgs s @ map fst (p # ps)"
    using new' new1 by simp
  have numr: "ml_num_messages (the_list s') = ml_num_messages (the_list s) + length (p # ps)"
    using num' num1 by simp
  show ?case
    by (intro exI [of _ s'] conjI allI)
       (fact r allr filesr nextr aar newr name' numr boundr quietr)+
qed

subsection \<open>The snapshot of the cache\<close>

lemma cached_Some:
  "unique_keys coll \<Longrightarrow> cached_messages name coll i = Some c \<Longrightarrow>
     c \<in> set coll \<and> doc_list c = name \<and> doc_imap_uid c = i"
  using find_one_Some [of name i coll c]
  by (simp add: cached_messages_find_one doc_key_def)

lemma cached_None:
  "unique_keys coll \<Longrightarrow> cached_messages name coll i = None \<Longrightarrow>
     (name, i) \<notin> set (map doc_key coll)"
  by (simp add: cached_messages_find_one find_one_None)

lemma cached_of_row:
  "unique_keys coll \<Longrightarrow> c \<in> set coll \<Longrightarrow>
     cached_messages (doc_list c) coll (doc_imap_uid c) = Some c"
  by (simp add: cached_messages_find_one find_one_unique)

lemma needs_fetch_iff:
  "needs_fetch cached m \<longleftrightarrow> cached (uid m) = None \<or> stale cached m"
  by (simp add: needs_fetch_def stale_def split: option.splits)

lemma distinct_map_eqD:
  "distinct (map f xs) \<Longrightarrow> x \<in> set xs \<Longrightarrow> y \<in> set xs \<Longrightarrow> f x = f y \<Longrightarrow> x = y"
  by (meson distinct_map inj_onD)

lemma imap_fetch_filter:
  assumes "uids_unique remote"
  shows "imap_fetch remote (map uid (filter P remote))
           = map (\<lambda>m. (uid m, rfc822 m)) (filter P remote)"
proof -
  have "filter (\<lambda>m. uid m \<in> set (map uid (filter P remote))) remote = filter P remote"
  proof (rule filter_cong [OF refl])
    fix m assume m: "m \<in> set remote"
    show "(uid m \<in> set (map uid (filter P remote))) = P m"
    proof
      assume "uid m \<in> set (map uid (filter P remote))"
      then obtain m' where m': "m' \<in> set remote" "P m'" "uid m' = uid m" by auto
      with assms m have "m' = m"
        unfolding uids_unique_def using distinct_map_eqD by metis
      with m' show "P m" by simp
    next
      assume "P m" with m show "uid m \<in> set (map uid (filter P remote))" by auto
    qed
  qed
  then show ?thesis by (simp add: imap_fetch_def)
qed

subsection \<open>A whole run\<close>

lemma to_fetch_fresh:
  assumes u: "unique_keys (db_messages w)"
    and cur: "cache_current name w remote"
    and m: "m \<in> set (to_fetch name w remote)"
  shows "(name, uid m) \<notin> set (map doc_key (db_messages w))"
proof -
  let ?cached = "cached_messages name (db_messages w)"
  from m have mr: "m \<in> set remote" and nf: "needs_fetch ?cached m"
    by (simp_all add: to_fetch_def)
  from cur mr have "\<not> stale ?cached m"
    by (simp add: cache_current_def list_all_iff)
  with nf have "?cached (uid m) = None" by (simp add: needs_fetch_iff)
  from cached_None [OF u this] show ?thesis .
qed

text \<open>
  A run from a consistent cache in which no cached size differs from the reported one:
  it completes, returns the UIDs that were not cached, appends one row for each of them
  and stores one new blob for each.
\<close>

lemma update_exact:
  assumes wf: "store_wf w" and uu: "uids_unique remote"
    and ar: "archived_at_readable lib remote"
    and cur: "cache_current (ml_list_name ml) w remote"
  shows "\<exists>w' ml'.
     update lib remote w ml = ((w', ml'), Inr (map uid (to_fetch (ml_list_name ml) w remote))) \<and>
     db_messages w' = db_messages w
        @ new_docs lib (ml_list_name ml) (fs_next_id w)
            (map (\<lambda>m. (uid m, rfc822 m)) (to_fetch (ml_list_name ml) w remote)) \<and>
     (\<forall>i. fs_files w' i =
        (if fs_next_id w \<le> i \<and> i < fs_next_id w + length (to_fetch (ml_list_name ml) w remote)
         then Some (rfc822 (to_fetch (ml_list_name ml) w remote ! (i - fs_next_id w)))
         else fs_files w i)) \<and>
     fs_next_id w' = fs_next_id w + length (to_fetch (ml_list_name ml) w remote) \<and>
     ml_list_name ml' = ml_list_name ml \<and>
     ml_num_messages ml' = ml_num_messages ml + length (to_fetch (ml_list_name ml) w remote) \<and>
     unique_keys (db_messages w')"
proof -
  let ?name = "ml_list_name ml"
  let ?cached = "cached_messages ?name (db_messages w)"
  let ?fetch = "to_fetch ?name w remote"
  let ?ps = "map (\<lambda>m. (uid m, rfc822 m)) ?fetch"
  let ?s0 = "\<lparr>the_store = w, the_list = ml, cache_replaces = [], new_msgs = []\<rparr>"
  have u: "unique_keys (db_messages w)" using wf by (simp add: store_wf_def)
  have scan: "size_scan ?name ?cached remote w [] = (w, Inr (map uid ?fetch))"
    using size_scan_current [of ?cached remote ?name w "[]"] cur
    by (simp add: cache_current_def to_fetch_def)
  have fetched: "imap_fetch remote (map uid ?fetch) = ?ps"
    unfolding to_fetch_def by (rule imap_fetch_filter [OF uu])
  show ?thesis
  proof (cases "?fetch = []")
    case True
    have "update lib remote w ml = ((w, ml), Inr [])"
      by (simp add: update_def Let_def scan True)
    with u show ?thesis using True by auto
  next
    case False
    have p1: "list_all (\<lambda>p. \<not> isl (get_item lib (message_from_bytes lib (snd p)) ''Archived-At'')) ?ps"
      using ar by (auto simp: archived_at_readable_def list_all_iff to_fetch_def)
    have p2: "unique_keys (db_messages (the_store ?s0) @ cache_replaces ?s0)"
      using u by simp
    have p3: "distinct (map fst ?ps)"
      using uu by (simp add: uids_unique_def to_fetch_def comp_def distinct_map_filter)
    have p4: "\<forall>p \<in> set ?ps. (?name, fst p)
            \<notin> set (map doc_key (db_messages (the_store ?s0) @ cache_replaces ?s0))"
      using to_fetch_fresh [OF u cur] by auto
    have p5: "ml_list_name (the_list ?s0) = ?name" by simp
    from fetch_loop_ok [OF p1 p2 p3 p4 p5]
    obtain s' where loop: "fetch_loop lib ?ps ?s0 = (s', None)"
      and all0: "db_messages (the_store s') @ cache_replaces s'
         = db_messages (the_store ?s0) @ cache_replaces ?s0
             @ new_docs lib ?name (fs_next_id (the_store ?s0)) ?ps"
      and files0: "\<forall>i. fs_files (the_store s') i =
        (if fs_next_id (the_store ?s0) \<le> i \<and> i < fs_next_id (the_store ?s0) + length ?ps
         then Some (snd (?ps ! (i - fs_next_id (the_store ?s0))))
         else fs_files (the_store ?s0) i)"
      and next0: "fs_next_id (the_store s') = fs_next_id (the_store ?s0) + length ?ps"
      and new0: "new_msgs s' = new_msgs ?s0 @ map fst ?ps"
      and name': "ml_list_name (the_list s') = ?name"
      and num0: "ml_num_messages (the_list s') = ml_num_messages (the_list ?s0) + length ?ps"
      by (elim exE conjE) (rule that; assumption)
    have all': "db_messages (the_store s') @ cache_replaces s'
         = db_messages w @ new_docs lib ?name (fs_next_id w) ?ps"
      using all0 by simp
    have files': "fs_files (the_store s') i =
        (if fs_next_id w \<le> i \<and> i < fs_next_id w + length ?fetch
         then Some (rfc822 (?fetch ! (i - fs_next_id w)))
         else fs_files w i)" for i
    proof (cases "fs_next_id w \<le> i \<and> i < fs_next_id w + length ?fetch")
      case True
      then have "i - fs_next_id w < length ?fetch" by arith
      then have "snd (?ps ! (i - fs_next_id w)) = rfc822 (?fetch ! (i - fs_next_id w))"
        by (simp add: nth_map)
      with True files0 [rule_format, of i] show ?thesis by simp
    next
      case False
      with files0 [rule_format, of i] show ?thesis by auto
    qed
    have next': "fs_next_id (the_store s') = fs_next_id w + length ?ps"
      using next0 by simp
    have new': "new_msgs s' = map fst ?ps"
      using new0 by simp
    have num': "ml_num_messages (the_list s') = ml_num_messages ml + length ?ps"
      using num0 by simp
    have dk: "distinct (map (\<lambda>p. (?name, fst p)) ?ps)"
    proof -
      have "distinct (map uid ?fetch)"
        using uu by (simp add: uids_unique_def to_fetch_def distinct_map_filter)
      then have "distinct (map (Pair ?name) (map uid ?fetch))"
        by (simp only: distinct_map [of "Pair ?name"]) (simp add: inj_on_def)
      then show ?thesis by (simp add: comp_def)
    qed
    have disj: "set (map doc_key (db_messages w))
                  \<inter> set (map (\<lambda>p. (?name, fst p)) ?ps) = {}"
    proof -
      have "(?name, uid m) \<notin> set (map doc_key (db_messages w))"
        if "m \<in> set ?fetch" for m
        using to_fetch_fresh [OF u cur that] .
      then show ?thesis by auto
    qed
    have "distinct (map doc_key (db_messages w) @ map (\<lambda>p. (?name, fst p)) ?ps)"
      using u dk disj
      by (simp only: distinct_append) (simp add: unique_keys_def)
    then have ukn: "unique_keys (db_messages w @ new_docs lib ?name (fs_next_id w) ?ps)"
      by (simp only: unique_keys_def map_append doc_key_new_docs)
    then have uall: "unique_keys (db_messages (the_store s') @ cache_replaces s')"
      by (simp only: all')
    have bw: "bulk_write (cache_replaces s') (db_messages (the_store s'))
                = (db_messages (the_store s') @ cache_replaces s', None)"
      by (rule bulk_write_ok' [OF uall])
    let ?s2 = "s'\<lparr>the_store := aa_cache_replace ?name (ml_archive_urls (the_list s')) (the_store s')\<rparr>"
    define w' where "w' = (if cache_replaces s' = [] then the_store ?s2
                           else (the_store ?s2)\<lparr>db_messages := db_messages (the_store s') @ cache_replaces s'\<rparr>)"
    have upd: "update lib remote w ml = ((w', the_list s'), Inr (map uid ?fetch))"
      using False
      by (simp add: update_def Let_def scan fetched loop bw aa_cache_replace_def new' w'_def comp_def)
    have dbw: "db_messages w' = db_messages w @ new_docs lib ?name (fs_next_id w) ?ps"
      unfolding w'_def aa_cache_replace_def using all' by (cases "cache_replaces s' = []") simp_all
    have filesw: "fs_files w' i =
        (if fs_next_id w \<le> i \<and> i < fs_next_id w + length ?fetch
         then Some (rfc822 (?fetch ! (i - fs_next_id w)))
         else fs_files w i)" for i
      unfolding w'_def aa_cache_replace_def using files' [of i] by (cases "cache_replaces s' = []") simp_all
    have nextw: "fs_next_id w' = fs_next_id w + length ?fetch"
      unfolding w'_def aa_cache_replace_def using next' by (cases "cache_replaces s' = []") simp_all
    have numw: "ml_num_messages (the_list s') = ml_num_messages ml + length ?fetch"
      using num' by simp
    have uw: "unique_keys (db_messages w')"
      using ukn by (simp only: dbw)
    show ?thesis
      by (intro exI [of _ w'] exI [of _ "the_list s'"] conjI allI)
         (fact upd dbw filesw nextw name' numw uw)+
  qed
qed

text \<open>
  A run that meets a size mismatch: the cached blob is found, and \<open>delete\<close> on it raises.
  Nothing has been changed by then, and nothing is fetched.
\<close>

lemma update_raises_on_stale:
  assumes wf: "store_wf w" and st: "\<not> cache_current (ml_list_name ml) w remote"
  shows "update lib remote w ml = ((w, ml), Inl AttributeError)"
proof -
  let ?name = "ml_list_name ml"
  let ?cached = "cached_messages ?name (db_messages w)"
  have u: "unique_keys (db_messages w)"
    and b: "list_all (\<lambda>d. fs_files w (doc_gridfs_id d) \<noteq> None) (db_messages w)"
    using wf by (simp_all add: store_wf_def)
  have blobs: "\<forall>m \<in> set remote. \<forall>c. ?cached (uid m) = Some c \<longrightarrow> fs_files w (doc_gridfs_id c) \<noteq> None"
    using cached_Some [OF u] b by (auto simp: list_all_iff)
  from st have "\<not> list_all (\<lambda>m. \<not> stale ?cached m) remote"
    by (simp add: cache_current_def)
  from size_scan_stale [OF this blobs, of ?name "[]"] show ?thesis
    by (simp add: update_def Let_def)
qed

subsection \<open>A run keeps the cache consistent\<close>

lemma new_docs_gridfs:
  "map doc_gridfs_id (new_docs lib name k ps) = [k..<k + length ps]"
proof (induction ps arbitrary: k)
  case Nil
  show ?case by simp
next
  case (Cons p ps)
  have "[k..<k + length (p # ps)] = k # [Suc k..<Suc k + length ps]"
    by (simp add: upt_rec)
  with Cons show ?case by simp
qed

text \<open>
  The consistency that the properties below assume is not an extra demand on the cache:
  the empty cache has it, and every run hands it on, whether it completes or raises on
  a size mismatch.
\<close>

lemma empty_store_wf: "store_wf empty_store"
  by (simp add: store_wf_def empty_store_def unique_keys_def)

lemma update_wf:
  assumes wf: "store_wf w" and uu: "uids_unique remote"
    and ar: "archived_at_readable lib remote"
  shows "store_wf (fst (fst (update lib remote w ml)))"
proof (cases "cache_current (ml_list_name ml) w remote")
  case False
  from update_raises_on_stale [OF wf False, of lib] wf show ?thesis by simp
next
  case cur: True
  let ?name = "ml_list_name ml"
  let ?fetch = "to_fetch ?name w remote"
  let ?ps = "map (\<lambda>m. (uid m, rfc822 m)) ?fetch"
  let ?k = "fs_next_id w"
  from update_exact [OF wf uu ar cur]
  obtain w' ml' where upd: "update lib remote w ml = ((w', ml'), Inr (map uid ?fetch))"
    and db: "db_messages w' = db_messages w @ new_docs lib ?name ?k ?ps"
    and files: "\<forall>i. fs_files w' i =
        (if ?k \<le> i \<and> i < ?k + length ?fetch
         then Some (rfc822 (?fetch ! (i - ?k)))
         else fs_files w i)"
    and nxt: "fs_next_id w' = ?k + length ?fetch"
    and uw: "unique_keys (db_messages w')"
    by (elim exE conjE) (rule that; assumption)
  have n: "dom (fs_files w) \<subseteq> {..<?k}"
    and g: "distinct (map doc_gridfs_id (db_messages w))"
    and b: "list_all (\<lambda>d. fs_files w (doc_gridfs_id d) \<noteq> None) (db_messages w)"
    using wf by (simp_all add: store_wf_def)
  have old: "fs_files w (doc_gridfs_id d) \<noteq> None \<and> doc_gridfs_id d < ?k"
    if "d \<in> set (db_messages w)" for d
  proof -
    from b that have "fs_files w (doc_gridfs_id d) \<noteq> None" by (simp add: list_all_iff)
    with n show ?thesis by (auto simp: dom_def)
  qed
  have 2: "distinct (map doc_gridfs_id (db_messages w'))"
  proof -
    have "set (map doc_gridfs_id (db_messages w)) \<inter> set [?k..<?k + length ?ps] = {}"
      using old by fastforce
    with g show ?thesis
      by (simp only: db map_append new_docs_gridfs distinct_append distinct_upt simp_thms)
  qed
  have 3: "list_all (\<lambda>d. fs_files w' (doc_gridfs_id d) \<noteq> None) (db_messages w')"
  proof -
    have "fs_files w' (doc_gridfs_id d) \<noteq> None" if "d \<in> set (db_messages w)" for d
      using old [OF that] files [rule_format, of "doc_gridfs_id d"] by simp
    moreover have "fs_files w' i \<noteq> None" if "i \<in> set (map doc_gridfs_id (new_docs lib ?name ?k ?ps))" for i
      using that files [rule_format, of i] by (simp add: new_docs_gridfs)
    ultimately show ?thesis
      by (auto simp: db list_all_iff)
  qed
  have 4: "dom (fs_files w') \<subseteq> {..<fs_next_id w'}"
  proof
    fix i assume "i \<in> dom (fs_files w')"
    then have "fs_files w' i \<noteq> None" by (simp add: dom_def)
    with files [rule_format, of i] n show "i \<in> {..<fs_next_id w'}"
      by (cases "?k \<le> i \<and> i < ?k + length ?fetch")
         (auto simp: nxt dom_def split: if_splits)
  qed
  from uw 2 3 4 show ?thesis
    by (simp add: upd store_wf_def)
qed

subsection \<open>The unique index holds after every call\<close>

lemma bulk_write_unique':
  "bulk_write ops coll = (coll', r) \<Longrightarrow> unique_keys coll \<Longrightarrow> unique_keys coll'"
  using bulk_write_unique [of coll ops] by simp

lemma size_scan_unique:
  "unique_keys (db_messages w) \<Longrightarrow>
     unique_keys (db_messages (fst (size_scan name cached ms w acc)))"
  by (simp add: size_scan_store)

lemma fetch_one_unique:
  "unique_keys (db_messages (the_store s)) \<Longrightarrow>
     unique_keys (db_messages (the_store (fst (fetch_one lib p s))))"
  by (auto simp: fetch_one_def Let_def fs_put_def
           split: sum.splits option.splits prod.splits dest: bulk_write_unique')

lemma fetch_loop_unique:
  "unique_keys (db_messages (the_store s)) \<Longrightarrow>
     unique_keys (db_messages (the_store (fst (fetch_loop lib ps s))))"
proof (induction ps arbitrary: s)
  case Nil
  then show ?case by simp
next
  case (Cons p ps)
  obtain s1 r where s1: "fetch_one lib p s = (s1, r)" by (cases "fetch_one lib p s")
  with fetch_one_unique [OF Cons.prems, of lib p]
  have u1: "unique_keys (db_messages (the_store s1))" by simp
  show ?case
  proof (cases r)
    case None
    with s1 Cons.IH [OF u1] show ?thesis by simp
  next
    case (Some err)
    with s1 u1 show ?thesis by simp
  qed
qed

lemma update_unique:
  assumes "unique_keys (db_messages w)"
  shows "unique_keys (db_messages (fst (fst (update lib remote w ml))))"
proof -
  let ?name = "ml_list_name ml"
  let ?cached = "cached_messages ?name (db_messages w)"
  obtain w1 r1 where scan: "size_scan ?name ?cached remote w [] = (w1, r1)"
    by (cases "size_scan ?name ?cached remote w []")
  with size_scan_unique [OF assms, of ?name ?cached remote "[]"]
  have u1: "unique_keys (db_messages w1)" by simp
  show ?thesis
  proof (cases r1)
    case (Inl err)
    with scan u1 show ?thesis by (simp add: update_def Let_def)
  next
    case (Inr msg_fetch)
    let ?s0 = "\<lparr>the_store = w1, the_list = ml, cache_replaces = [], new_msgs = []\<rparr>"
    obtain s2 r2 where loop: "fetch_loop lib (imap_fetch remote msg_fetch) ?s0 = (s2, r2)"
      by (cases "fetch_loop lib (imap_fetch remote msg_fetch) ?s0")
    with fetch_loop_unique [of ?s0 lib "imap_fetch remote msg_fetch"] u1
    have u2: "unique_keys (db_messages (the_store s2))" by simp
    obtain coll r3 where bw: "bulk_write (cache_replaces s2) (db_messages (the_store s2)) = (coll, r3)"
      by (cases "bulk_write (cache_replaces s2) (db_messages (the_store s2))")
    from bulk_write_unique' [OF bw u2] have u3: "unique_keys coll" .
    show ?thesis
      using scan Inr loop bw u1 u2 u3
      by (cases "msg_fetch = []"; cases r2; cases r3)
         (simp_all add: update_def Let_def aa_cache_replace_def)
  qed
qed

lemma mailing_list_messages_same:
  "db_messages (fst (fst (mailing_list lib w arch name))) = db_messages w"
  by (auto simp: mailing_list_def mailing_list_init_def Let_def aa_cache_replace_def
           split: option.splits prod.splits sum.splits list.splits)

lemma synchronize_unique:
  assumes "unique_keys (db_messages (fst wa))"
  shows "unique_keys (db_messages (fst (synchronize lib run wa)))"
proof -
  obtain wa' r where ml: "mailing_list lib (fst wa) (snd wa) (fst run) = (wa', r)"
    by (cases "mailing_list lib (fst wa) (snd wa) (fst run)")
  with mailing_list_messages_same [of lib "fst wa" "snd wa" "fst run"] assms
  have u: "unique_keys (db_messages (fst wa'))" by simp
  show ?thesis
  proof (cases r)
    case (Inl err)
    with ml u show ?thesis by (simp add: synchronize_def)
  next
    case (Inr h)
    obtain w2 ml2 r2 where upd: "update lib (snd run) (fst wa') h = ((w2, ml2), r2)"
      by (cases "update lib (snd run) (fst wa') h") auto
    with update_unique [OF u, of lib "snd run" h] have "unique_keys (db_messages w2)" by simp
    with ml Inr upd show ?thesis by (simp add: synchronize_def)
  qed
qed

lemma synchronize_runs_unique:
  "unique_keys (db_messages (fst wa)) \<Longrightarrow>
     unique_keys (db_messages (fst (synchronize_runs lib runs wa)))"
  by (induction runs arbitrary: wa) (simp_all add: synchronize_unique)

subsection \<open>A run that finds nothing to fetch\<close>

lemma size_scan_noop:
  "\<forall>m \<in> set ms. \<not> needs_fetch cached m \<Longrightarrow> size_scan name cached ms w acc = (w, Inr acc)"
  by (induction ms arbitrary: acc) (auto simp: needs_fetch_def split: option.splits)

lemma update_noop:
  assumes "\<forall>m \<in> set remote. \<not> needs_fetch (cached_messages (ml_list_name ml) (db_messages w)) m"
  shows "update lib remote w ml = ((w, ml), Inr [])"
  using size_scan_noop [OF assms, of "ml_list_name ml" w "[]"]
  by (simp add: update_def Let_def)

lemma new_docs_member:
  "p \<in> set ps \<Longrightarrow>
     \<exists>d \<in> set (new_docs lib name k ps).
       doc_list d = name \<and> doc_imap_uid d = fst p \<and> doc_size d = length (snd p) \<and>
       k \<le> doc_gridfs_id d"
proof (induction ps arbitrary: k)
  case Nil
  then show ?case by simp
next
  case (Cons q ps)
  show ?case
  proof (cases "p = q")
    case True
    then show ?thesis by simp
  next
    case False
    with Cons.prems have "p \<in> set ps" by simp
    from Cons.IH [OF this, of "Suc k"] show ?thesis by auto
  qed
qed

lemma demo_hyps:
  "store_wf dated_store" "uids_unique extended_remote" "sizes_exact extended_remote"
  "archived_at_readable demo_lib extended_remote"
  "cache_current (ml_list_name dated_list) dated_store extended_remote"
  by (simp_all add: store_wf_def dated_store_def unique_keys_def doc_key_def uids_unique_def
        extended_remote_def sizes_exact_def archived_at_readable_def demo_lib_def
        cache_current_def dated_list_def cached_messages_def find_list_def stale_def)

lemma changed_hyps:
  "uids_unique changed_remote" "sizes_exact changed_remote"
  "archived_at_readable demo_lib changed_remote"
  "\<not> cache_current (ml_list_name dated_list) dated_store changed_remote"
  by (simp_all add: dated_store_def uids_unique_def
        changed_remote_def sizes_exact_def archived_at_readable_def demo_lib_def
        cache_current_def dated_list_def cached_messages_def find_list_def stale_def)

section \<open>Repair of a stale row\<close>

text \<open>
  C3 at a concrete cache. The cache is consistent and holds message 2 of \<open>example-list\<close>
  with 3 bytes; the mailbox reports 5 bytes for it. The run raises \<open>AttributeError\<close>
  (line 199). Afterwards the cache is as it was: the row of message 2 still has size 3
  and still refers to blob 1, which still exists, and no row carries the new size. The
  specification has the run delete row and blob, fetch the message again and store it
  with size 5.
\<close>

theorem size_mismatch_not_repaired:
  "store_wf dated_store \<and> uids_unique changed_remote \<and> sizes_exact changed_remote \<and>
   archived_at_readable demo_lib changed_remote \<and>
   map (\<lambda>d. (doc_imap_uid d, doc_size d, doc_gridfs_id d)) (db_messages dated_store)
     = [(1, 3, 0), (2, 3, 1)] \<and>
   map (\<lambda>m. (uid m, rfc822_size m)) changed_remote = [(1, 3), (2, 5), (3, 5)] \<and>
   update demo_lib changed_remote dated_store dated_list
     = ((dated_store, dated_list), Inl AttributeError) \<and>
   map (\<lambda>d. (doc_imap_uid d, doc_size d, doc_gridfs_id d))
     (db_messages (fst (fst (update demo_lib changed_remote dated_store dated_list))))
     = [(1, 3, 0), (2, 3, 1)] \<and>
   fs_files (fst (fst (update demo_lib changed_remote dated_store dated_list))) 1 = Some ''two''"
proof -
  have upd: "update demo_lib changed_remote dated_store dated_list
     = ((dated_store, dated_list), Inl AttributeError)"
    by (rule update_raises_on_stale [OF demo_hyps(1) changed_hyps(4)])
  have rows: "map (\<lambda>d. (doc_imap_uid d, doc_size d, doc_gridfs_id d)) (db_messages dated_store)
     = [(1, 3, 0), (2, 3, 1)]"
    by (simp add: dated_store_def)
  have remote: "map (\<lambda>m. (uid m, rfc822_size m)) changed_remote = [(1, 3), (2, 5), (3, 5)]"
    by (simp add: changed_remote_def)
  have blob: "fs_files dated_store 1 = Some ''two''"
    by (simp add: dated_store_def)
  from demo_hyps(1) changed_hyps(1,2,3) rows remote upd blob show ?thesis
    by (simp only: fst_conv simp_thms)
qed

section \<open>The message count of a handle\<close>

text \<open>
  A run that completes adds to the count the number of UIDs it returns: this is part of
  \<open>update_exact\<close>. C10 at a concrete cache, where the count is the number of rows (2),
  message 2 is stale and message 3 is new: the run raises \<open>AttributeError\<close> on line 199
  before any message is fetched, so the repair is not counted; the count is still 2
  and the list still has 2 rows. The claim has the count at 4 after this run, above
  the 3 rows of the list.
\<close>

theorem repair_not_counted:
  "num_messages dated_list = 2 \<and>
   length (find_list ''example-list'' (db_messages dated_store)) = 2 \<and>
   stale (cached_messages ''example-list'' (db_messages dated_store)) (changed_remote ! 1) \<and>
   map uid (to_fetch ''example-list'' dated_store changed_remote) = [2, 3] \<and>
   snd (update demo_lib changed_remote dated_store dated_list) = Inl AttributeError \<and>
   num_messages (snd (fst (update demo_lib changed_remote dated_store dated_list))) = 2 \<and>
   length (find_list ''example-list''
             (db_messages (fst (fst (update demo_lib changed_remote dated_store dated_list))))) = 2"
  by code_simp

section \<open>At most one row per list and UID\<close>

text \<open>
  The rows keep pairwise different \<open>(list, imap_uid)\<close> keys over every sequence of runs:
  this is \<open>synchronize_runs_unique\<close>. C1 at a concrete cache, for the re-ingestion. After
  one synchronisation the cache holds message 42 of \<open>example-list\<close> with 6 bytes. The
  message then has 7 bytes in the mailbox. The next run raises \<open>AttributeError\<close> on line
  199: the row is not replaced, the cache still holds the one row of 6 bytes, after this
  run and after any number of further ones.
\<close>

theorem stored_row_not_replaced:
  "map (\<lambda>d. (doc_key d, doc_size d)) (db_messages (fst demo_state))
     = [((''example-list'', 42), 6)] \<and>
   map (\<lambda>m. (uid m, rfc822_size m, length (rfc822 m))) grown_remote = [(42, 7, 7)] \<and>
   (case mailing_lists (snd demo_state) ''example-list'' of
      None \<Rightarrow> False
    | Some ml \<Rightarrow>
        snd (update demo_lib grown_remote (fst demo_state) ml) = Inl AttributeError \<and>
        map (\<lambda>d. (doc_key d, doc_size d))
          (db_messages (fst (fst (update demo_lib grown_remote (fst demo_state) ml))))
          = [((''example-list'', 42), 6)]) \<and>
   map (\<lambda>d. (doc_key d, doc_size d))
     (db_messages (fst (synchronize_runs demo_lib
        [(''example-list'', grown_remote), (''example-list'', grown_remote)] demo_state)))
     = [((''example-list'', 42), 6)]"
  by code_simp

section \<open>Batched writes\<close>

lemma thousand_loop:
  "\<exists>s'. fetch_loop demo_lib thousand_messages initial_fetch_state = (s', None) \<and>
     db_messages (the_store s') = [] \<and>
     cache_replaces s' = new_docs demo_lib ''example-list'' 0 thousand_messages \<and>
     new_msgs s' = map fst thousand_messages \<and>
     ml_list_name (the_list s') = ''example-list''"
proof -
  let ?s0 = initial_fetch_state
  have p1: "list_all (\<lambda>p. \<not> isl (get_item demo_lib (message_from_bytes demo_lib (snd p)) ''Archived-At''))
              thousand_messages"
    by (simp add: list_all_iff demo_lib_def)
  have p2: "unique_keys (db_messages (the_store ?s0) @ cache_replaces ?s0)"
    by (simp add: initial_fetch_state_def empty_store_def unique_keys_def)
  have p3: "distinct (map fst thousand_messages)"
    by (simp add: thousand_messages_def comp_def)
  have p4: "\<forall>p \<in> set thousand_messages. (''example-list'', fst p)
              \<notin> set (map doc_key (db_messages (the_store ?s0) @ cache_replaces ?s0))"
    by (simp add: initial_fetch_state_def empty_store_def)
  have p5: "ml_list_name (the_list ?s0) = ''example-list''"
    by (simp add: initial_fetch_state_def)
  have len: "length (cache_replaces ?s0) + length thousand_messages \<le> 1000"
    by (simp add: initial_fetch_state_def thousand_messages_def)
  from fetch_loop_ok [OF p1 p2 p3 p4 p5]
  obtain s' where loop: "fetch_loop demo_lib thousand_messages ?s0 = (s', None)"
    and all0: "db_messages (the_store s') @ cache_replaces s'
         = db_messages (the_store ?s0) @ cache_replaces ?s0
             @ new_docs demo_lib ''example-list'' (fs_next_id (the_store ?s0)) thousand_messages"
    and new0: "new_msgs s' = new_msgs ?s0 @ map fst thousand_messages"
    and name0: "ml_list_name (the_list s') = ''example-list''"
    and quiet0: "length (cache_replaces ?s0) + length thousand_messages \<le> 1000 \<longrightarrow>
        db_messages (the_store s') = db_messages (the_store ?s0)"
    by (elim exE conjE) (rule that; assumption)
  from quiet0 len have db: "db_messages (the_store s') = []"
    by (simp add: initial_fetch_state_def empty_store_def)
  from all0 db have "cache_replaces s' = new_docs demo_lib ''example-list'' 0 thousand_messages"
    by (simp add: initial_fetch_state_def empty_store_def)
  moreover from new0 have "new_msgs s' = map fst thousand_messages"
    by (simp add: initial_fetch_state_def)
  ultimately show ?thesis using loop db name0 by blast
qed

text \<open>
  C7 as the specification states it fails. The loop has fetched one thousand messages
  and none of them has been written: all thousand are still staged. The test on line
  233 is \<open>len(cache_replaces) > 1000\<close>.
\<close>

theorem no_flush_after_1000_counterexample:
  "length thousand_messages = 1000 \<and>
   snd (fetch_loop demo_lib thousand_messages initial_fetch_state) = None \<and>
   new_msgs (fst (fetch_loop demo_lib thousand_messages initial_fetch_state))
     = map fst thousand_messages \<and>
   db_messages (the_store (fst (fetch_loop demo_lib thousand_messages initial_fetch_state))) = [] \<and>
   length (cache_replaces (fst (fetch_loop demo_lib thousand_messages initial_fetch_state))) = 1000"
proof -
  from thousand_loop obtain s' where
    "fetch_loop demo_lib thousand_messages initial_fetch_state = (s', None)"
    "db_messages (the_store s') = []"
    "cache_replaces s' = new_docs demo_lib ''example-list'' 0 thousand_messages"
    "new_msgs s' = map fst thousand_messages"
    by (elim exE conjE) (rule that; assumption)
  moreover have "length thousand_messages = 1000"
    by (simp add: thousand_messages_def)
  ultimately show ?thesis by simp
qed

text \<open>
  C7, as the code has it. A run from a consistent cache in which no cached size differs
  from the reported one completes, and when it has completed every UID it returns has
  its row in the collection: what was still staged is written by the final
  \<open>bulk_write\<close>. Within the run, an iteration writes nothing while fewer than 1000
  documents are staged before it, and writes the whole batch, its own document
  included, when 1000 are staged before it: a batch is 1001 documents.
\<close>

theorem staged_rows_flushed:
  "(store_wf w \<and> uids_unique remote \<and> archived_at_readable lib remote \<and>
    cache_current (ml_list_name ml) w remote \<longrightarrow>
      (\<exists>w' ml' new.
         update lib remote w ml = ((w', ml'), Inr new) \<and>
         new = map uid (to_fetch (ml_list_name ml) w remote) \<and>
         (\<forall>i \<in> set new. \<exists>d \<in> set (db_messages w').
            doc_list d = ml_list_name ml \<and> doc_imap_uid d = i))) \<and>
   (\<not> isl (get_item lib (message_from_bytes lib (snd p)) ''Archived-At'') \<and>
    unique_keys (db_messages (the_store s) @ cache_replaces s) \<and>
    (ml_list_name (the_list s), fst p)
       \<notin> set (map doc_key (db_messages (the_store s) @ cache_replaces s)) \<longrightarrow>
      (\<exists>s'. fetch_one lib p s = (s', None) \<and>
         db_messages (the_store s') =
           (if 1000 \<le> length (cache_replaces s)
            then db_messages (the_store s) @ cache_replaces s
                   @ new_docs lib (ml_list_name (the_list s)) (fs_next_id (the_store s)) [p]
            else db_messages (the_store s)) \<and>
         cache_replaces s' =
           (if 1000 \<le> length (cache_replaces s) then []
            else cache_replaces s
                   @ new_docs lib (ml_list_name (the_list s)) (fs_next_id (the_store s)) [p])))"
proof (intro conjI impI)
  assume a: "store_wf w \<and> uids_unique remote \<and> archived_at_readable lib remote \<and>
    cache_current (ml_list_name ml) w remote"
  let ?name = "ml_list_name ml"
  let ?fetch = "to_fetch ?name w remote"
  let ?ps = "map (\<lambda>m. (uid m, rfc822 m)) ?fetch"
  from a have wf: "store_wf w" and uu: "uids_unique remote"
    and ar: "archived_at_readable lib remote"
    and cur: "cache_current ?name w remote" by simp_all
  from update_exact [OF wf uu ar cur]
  obtain w' ml' where upd: "update lib remote w ml = ((w', ml'), Inr (map uid ?fetch))"
    and db: "db_messages w' = db_messages w @ new_docs lib ?name (fs_next_id w) ?ps"
    by (elim exE conjE) (rule that; assumption)
  have "\<exists>d \<in> set (db_messages w'). doc_list d = ?name \<and> doc_imap_uid d = i"
    if "i \<in> set (map uid ?fetch)" for i
  proof -
    from that obtain m where "m \<in> set ?fetch" "uid m = i" by auto
    then have "(i, rfc822 m) \<in> set ?ps" by force
    from new_docs_member [OF this, of lib ?name "fs_next_id w"] db show ?thesis by auto
  qed
  with upd show "\<exists>w' ml' new.
         update lib remote w ml = ((w', ml'), Inr new) \<and>
         new = map uid (to_fetch (ml_list_name ml) w remote) \<and>
         (\<forall>i \<in> set new. \<exists>d \<in> set (db_messages w').
            doc_list d = ml_list_name ml \<and> doc_imap_uid d = i)"
    by blast
next
  assume b: "\<not> isl (get_item lib (message_from_bytes lib (snd p)) ''Archived-At'') \<and>
    unique_keys (db_messages (the_store s) @ cache_replaces s) \<and>
    (ml_list_name (the_list s), fst p)
       \<notin> set (map doc_key (db_messages (the_store s) @ cache_replaces s))"
  from b have ok: "\<not> isl (get_item lib (message_from_bytes lib (snd p)) ''Archived-At'')"
    and uniq: "unique_keys (db_messages (the_store s) @ cache_replaces s)"
    and fresh: "(ml_list_name (the_list s), fst p)
       \<notin> set (map doc_key (db_messages (the_store s) @ cache_replaces s))"
    by simp_all
  from fetch_one_ok [OF ok uniq fresh]
  obtain s' where "fetch_one lib p s = (s', None)"
    "db_messages (the_store s') =
           (if 1000 \<le> length (cache_replaces s)
            then db_messages (the_store s) @ cache_replaces s
                   @ new_docs lib (ml_list_name (the_list s)) (fs_next_id (the_store s)) [p]
            else db_messages (the_store s))"
    "cache_replaces s' =
           (if 1000 \<le> length (cache_replaces s) then []
            else cache_replaces s
                   @ new_docs lib (ml_list_name (the_list s)) (fs_next_id (the_store s)) [p])"
    by (elim exE conjE) (rule that; assumption)
  then show "\<exists>s'. fetch_one lib p s = (s', None) \<and>
         db_messages (the_store s') =
           (if 1000 \<le> length (cache_replaces s)
            then db_messages (the_store s) @ cache_replaces s
                   @ new_docs lib (ml_list_name (the_list s)) (fs_next_id (the_store s)) [p]
            else db_messages (the_store s)) \<and>
         cache_replaces s' =
           (if 1000 \<le> length (cache_replaces s) then []
            else cache_replaces s
                   @ new_docs lib (ml_list_name (the_list s)) (fs_next_id (the_store s)) [p])"
    by blast
qed

theorem staged_rows_flushed_witness:
  "store_wf dated_store \<and> uids_unique extended_remote \<and>
   archived_at_readable demo_lib extended_remote \<and>
   cache_current (ml_list_name dated_list) dated_store extended_remote \<and>
   (\<exists>w' ml'. update demo_lib extended_remote dated_store dated_list = ((w', ml'), Inr [3]) \<and>
      (\<exists>d \<in> set (db_messages w'). doc_list d = ''example-list'' \<and> doc_imap_uid d = 3)) \<and>
   length (cache_replaces (fst (fetch_loop demo_lib thousand_messages initial_fetch_state))) = 1000 \<and>
   (\<exists>s'. fetch_one demo_lib (1000, [])
            (fst (fetch_loop demo_lib thousand_messages initial_fetch_state)) = (s', None) \<and>
      length (db_messages (the_store s')) = 1001 \<and> cache_replaces s' = [])"
proof -
  let ?s = "fst (fetch_loop demo_lib thousand_messages initial_fetch_state)"
  let ?p = "(1000 :: nat, [] :: bytes)"
  have new: "map uid (to_fetch ''example-list'' dated_store extended_remote) = [3]"
    by code_simp
  have nm: "ml_list_name dated_list = ''example-list''"
    by (simp add: dated_list_def)
  from thousand_loop obtain s1 where s1:
    "fetch_loop demo_lib thousand_messages initial_fetch_state = (s1, None)"
    "db_messages (the_store s1) = []"
    "cache_replaces s1 = new_docs demo_lib ''example-list'' 0 thousand_messages"
    "ml_list_name (the_list s1) = ''example-list''"
    by (elim exE conjE) (rule that; assumption)
  have s: "?s = s1" using s1(1) by simp
  have len: "length (cache_replaces ?s) = 1000"
    unfolding s s1(3) by (simp add: thousand_messages_def)
  have keys: "map doc_key (db_messages (the_store ?s) @ cache_replaces ?s)
                = map (Pair ''example-list'') [0..<1000]"
    unfolding s s1(2,3) by (simp add: doc_key_new_docs thousand_messages_def comp_def)
  have ok: "\<not> isl (get_item demo_lib (message_from_bytes demo_lib (snd ?p)) ''Archived-At'')"
    by (simp add: demo_lib_def)
  have uniq: "unique_keys (db_messages (the_store ?s) @ cache_replaces ?s)"
    unfolding unique_keys_def keys by (simp add: distinct_map inj_on_def)
  have fresh: "(ml_list_name (the_list ?s), fst ?p)
       \<notin> set (map doc_key (db_messages (the_store ?s) @ cache_replaces ?s))"
    unfolding keys by (simp add: s s1(4)) auto
  from staged_rows_flushed [of dated_store extended_remote demo_lib dated_list ?p ?s]
  have a: "\<exists>w' ml' new.
         update demo_lib extended_remote dated_store dated_list = ((w', ml'), Inr new) \<and>
         new = map uid (to_fetch (ml_list_name dated_list) dated_store extended_remote) \<and>
         (\<forall>i \<in> set new. \<exists>d \<in> set (db_messages w').
            doc_list d = ml_list_name dated_list \<and> doc_imap_uid d = i)"
    and b: "\<exists>s'. fetch_one demo_lib ?p ?s = (s', None) \<and>
         db_messages (the_store s') =
           (if 1000 \<le> length (cache_replaces ?s)
            then db_messages (the_store ?s) @ cache_replaces ?s
                   @ new_docs demo_lib (ml_list_name (the_list ?s)) (fs_next_id (the_store ?s)) [?p]
            else db_messages (the_store ?s)) \<and>
         cache_replaces s' =
           (if 1000 \<le> length (cache_replaces ?s) then []
            else cache_replaces ?s
                   @ new_docs demo_lib (ml_list_name (the_list ?s)) (fs_next_id (the_store ?s)) [?p])"
    using demo_hyps(1,2,4,5) ok uniq fresh by blast+
  from a have a': "\<exists>w' ml'. update demo_lib extended_remote dated_store dated_list = ((w', ml'), Inr [3]) \<and>
      (\<exists>d \<in> set (db_messages w'). doc_list d = ''example-list'' \<and> doc_imap_uid d = 3)"
    unfolding nm new by fastforce
  from b len have b': "\<exists>s'. fetch_one demo_lib ?p ?s = (s', None) \<and>
      length (db_messages (the_store s')) = 1001 \<and> cache_replaces s' = []"
    by (auto simp: s s1(2))
  from demo_hyps(1,2,4,5) a' len b' show ?thesis by (intro conjI)
qed

section \<open>Idempotence\<close>

text \<open>
  C2 as the specification states it fails. The mailbox holds one message of 6 bytes for
  which the server reports a size of 10, and it does not change. The first run, on the
  empty cache, completes and returns the UID 42; it has stored the size 6. The second
  run compares 6 with 10, takes the branch of a size mismatch and does not return the
  empty list: it raises.
\<close>

theorem second_run_not_empty_counterexample:
  "store_wf empty_store \<and> uids_unique misreported_remote \<and>
   archived_at_readable demo_lib misreported_remote \<and>
   snd (update demo_lib misreported_remote empty_store
          \<lparr>ml_list_name = ''example-list'', ml_num_messages = 0, ml_archive_urls = Map.empty\<rparr>)
     = Inr [42] \<and>
   stale (cached_messages ''example-list''
            (db_messages (fst (fst (update demo_lib misreported_remote empty_store
               \<lparr>ml_list_name = ''example-list'', ml_num_messages = 0,
                 ml_archive_urls = Map.empty\<rparr>)))))
         (hd misreported_remote) \<and>
   snd (update demo_lib misreported_remote
          (fst (fst (update demo_lib misreported_remote empty_store
             \<lparr>ml_list_name = ''example-list'', ml_num_messages = 0, ml_archive_urls = Map.empty\<rparr>)))
          (snd (fst (update demo_lib misreported_remote empty_store
             \<lparr>ml_list_name = ''example-list'', ml_num_messages = 0, ml_archive_urls = Map.empty\<rparr>))))
     = Inl AttributeError \<and>
   snd (update demo_lib misreported_remote
          (fst (fst (update demo_lib misreported_remote empty_store
             \<lparr>ml_list_name = ''example-list'', ml_num_messages = 0, ml_archive_urls = Map.empty\<rparr>)))
          (snd (fst (update demo_lib misreported_remote empty_store
             \<lparr>ml_list_name = ''example-list'', ml_num_messages = 0, ml_archive_urls = Map.empty\<rparr>))))
     \<noteq> Inr []"
proof -
  have h: "store_wf empty_store" "uids_unique misreported_remote"
    "archived_at_readable demo_lib misreported_remote"
    by (simp_all add: empty_store_wf uids_unique_def misreported_remote_def
          archived_at_readable_def demo_lib_def)
  let ?ml = "\<lparr>ml_list_name = ''example-list'', ml_num_messages = 0, ml_archive_urls = Map.empty\<rparr>"
  have 1: "snd (update demo_lib misreported_remote empty_store ?ml) = Inr [42]"
    by code_simp
  have 3: "stale (cached_messages ''example-list''
            (db_messages (fst (fst (update demo_lib misreported_remote empty_store ?ml)))))
         (hd misreported_remote)"
    by code_simp
  have 2: "snd (update demo_lib misreported_remote
          (fst (fst (update demo_lib misreported_remote empty_store ?ml)))
          (snd (fst (update demo_lib misreported_remote empty_store ?ml))))
     = Inl AttributeError"
    by code_simp
  from h 1 2 3 show ?thesis by simp
qed

text \<open>
  C2, as the code has it. Let the cache be consistent, the UIDs of the mailbox unique,
  the reported sizes the true byte counts, and no cached size different from the
  reported one. Then a run completes; a second run against the same mailbox returns
  the empty list and leaves the store and the handle, hence the message count and the
  rows, as the first run left them.
\<close>

theorem update_idempotent:
  assumes wf: "store_wf w" and uu: "uids_unique remote" and se: "sizes_exact remote"
    and ar: "archived_at_readable lib remote"
    and cur: "cache_current (ml_list_name ml) w remote"
  shows "\<exists>w1 ml1 new.
     update lib remote w ml = ((w1, ml1), Inr new) \<and>
     update lib remote w1 ml1 = ((w1, ml1), Inr []) \<and>
     num_messages (snd (fst (update lib remote w1 ml1))) = num_messages ml1 \<and>
     db_messages (fst (fst (update lib remote w1 ml1))) = db_messages w1"
proof -
  let ?name = "ml_list_name ml"
  let ?cached = "cached_messages ?name (db_messages w)"
  let ?fetch = "to_fetch ?name w remote"
  let ?ps = "map (\<lambda>m. (uid m, rfc822 m)) ?fetch"
  let ?k = "fs_next_id w"
  have u: "unique_keys (db_messages w)" using wf by (simp add: store_wf_def)
  from update_exact [OF wf uu ar cur]
  obtain w1 ml1 where upd: "update lib remote w ml = ((w1, ml1), Inr (map uid ?fetch))"
    and db: "db_messages w1 = db_messages w @ new_docs lib ?name ?k ?ps"
    and nm: "ml_list_name ml1 = ?name"
    and uw: "unique_keys (db_messages w1)"
    by (elim exE conjE) (rule that; assumption)
  let ?cached1 = "cached_messages ?name (db_messages w1)"
  have settled: "\<not> needs_fetch ?cached1 m" if m: "m \<in> set remote" for m
  proof -
    from se m have sz: "rfc822_size m = length (rfc822 m)"
      by (simp add: sizes_exact_def list_all_iff)
    have "\<exists>d \<in> set (db_messages w1).
            doc_list d = ?name \<and> doc_imap_uid d = uid m \<and> doc_size d = rfc822_size m"
    proof (cases "needs_fetch ?cached m")
      case True
      with m have "(uid m, rfc822 m) \<in> set ?ps" by (force simp: to_fetch_def)
      from new_docs_member [OF this, of lib ?name ?k] sz show ?thesis
        by (auto simp: db)
    next
      case False
      then obtain c where c: "?cached (uid m) = Some c" "doc_size c = rfc822_size m"
        by (auto simp: needs_fetch_def split: option.splits)
      with cached_Some [OF u c(1)] show ?thesis
        by (auto simp: db)
    qed
    then obtain d where d: "d \<in> set (db_messages w1)" "doc_list d = ?name"
      "doc_imap_uid d = uid m" "doc_size d = rfc822_size m"
      by blast
    from cached_of_row [OF uw d(1)] d(2,3) have "?cached1 (uid m) = Some d" by simp
    with d(4) show ?thesis by (simp add: needs_fetch_def)
  qed
  then have "\<forall>m \<in> set remote. \<not> needs_fetch (cached_messages (ml_list_name ml1) (db_messages w1)) m"
    by (simp add: nm)
  from update_noop [OF this, of lib]
  have again: "update lib remote w1 ml1 = ((w1, ml1), Inr [])" .
  with upd show ?thesis by simp
qed

theorem update_idempotent_witness:
  "store_wf dated_store \<and> uids_unique extended_remote \<and> sizes_exact extended_remote \<and>
   archived_at_readable demo_lib extended_remote \<and>
   cache_current (ml_list_name dated_list) dated_store extended_remote \<and>
   (\<exists>w1 ml1.
      update demo_lib extended_remote dated_store dated_list = ((w1, ml1), Inr [3]) \<and>
      update demo_lib extended_remote w1 ml1 = ((w1, ml1), Inr []) \<and>
      num_messages ml1 = 3)"
proof -
  have new: "snd (update demo_lib extended_remote dated_store dated_list) = Inr [3]"
    by code_simp
  have num: "num_messages (snd (fst (update demo_lib extended_remote dated_store dated_list))) = 3"
    by code_simp
  from update_idempotent [OF demo_hyps, of]
  obtain w1 ml1 new where a: "update demo_lib extended_remote dated_store dated_list = ((w1, ml1), Inr new)"
    and b: "update demo_lib extended_remote w1 ml1 = ((w1, ml1), Inr [])"
    by (elim exE conjE) (rule that; assumption)
  from a new num have "new = [3]" "num_messages ml1 = 3" by simp_all
  with a b have "\<exists>w1 ml1.
      update demo_lib extended_remote dated_store dated_list = ((w1, ml1), Inr [3]) \<and>
      update demo_lib extended_remote w1 ml1 = ((w1, ml1), Inr []) \<and>
      num_messages ml1 = 3"
    by blast
  with demo_hyps show ?thesis by (intro conjI)
qed


end
